theory Spec2Isabelle
  imports Complex_Main
begin

section \<open>Route segments (app/schemas/route\_segment.py)\<close>

text \<open>
  Amounts, fees, rates and scores are Python floats in the source; they are modelled as
  real numbers, so every statement below is about the exact arithmetic of the formulas and
  not about rounding.
\<close>

datatype SegmentType = FX | CRYPTO | GAS | BRIDGE | ON_RAMP | OFF_RAMP | BANK_RAIL | LIQUIDITY

text \<open>
  An entry of the \<open>cost\<close> dictionary read with \<open>cost.get(key, default)\<close>: the key can be
  missing (the default is used), hold \<open>None\<close> (the schema's own default for
  \<open>effective_fx_rate\<close>) or hold a number.
\<close>

datatype cost_entry = Absent | PyNone | Num real

record Cost =
  fee_percent :: cost_entry
  fixed_fee :: cost_entry
  effective_fx_rate :: cost_entry

record Latency =
  min_minutes :: "int option"
  max_minutes :: "int option"

record RouteSegment =
  segment_type :: SegmentType
  from_asset :: string
  to_asset :: string
  from_network :: "string option"
  to_network :: "string option"
  cost :: Cost
  latency :: Latency
  reliability_score :: real
  provider :: "string option"

section \<open>Graph builder (app/services/graph\_builder.py)\<close>

text \<open>
  A node identifier is the asset, an at sign and the network when \<open>network\<close> is true
  in Python's sense, else the asset: the conditional tests the truth value of an optional
  string, so both \<open>None\<close> and the empty string select the bare asset.
\<close>

fun node_id :: "string \<Rightarrow> string option \<Rightarrow> string" where
  "node_id asset None = asset"
| "node_id asset (Some network) = (if network = [] then asset else asset @ ''@'' @ network)"

definition from_node :: "RouteSegment \<Rightarrow> string" where
  "from_node segment =
     (if segment_type segment \<in> {FX, BANK_RAIL} then from_asset segment
      else node_id (from_asset segment) (from_network segment))"

definition to_node :: "RouteSegment \<Rightarrow> string" where
  "to_node segment =
     (if segment_type segment \<in> {FX, BANK_RAIL} then to_asset segment
      else node_id (to_asset segment) (to_network segment))"

text \<open>
  \<open>self.graph\<close> is a \<open>defaultdict\<close> of \<open>defaultdict(list)\<close>. Both levels are association
  lists in insertion order, since \<open>find_paths\<close> iterates over the inner dictionary.
\<close>

type_synonym adjacency = "(string \<times> (string \<times> RouteSegment list) list) list"

record RouteGraph =
  graph :: adjacency
  nodes :: "string set"
  segments :: "RouteSegment list"


fun inner_append :: "string \<Rightarrow> RouteSegment \<Rightarrow> (string \<times> RouteSegment list) list
    \<Rightarrow> (string \<times> RouteSegment list) list" where
  "inner_append v s [] = [(v, [s])]"
| "inner_append v s ((k, segs) # rest) =
     (if k = v then (k, segs @ [s]) # rest else (k, segs) # inner_append v s rest)"

fun graph_append :: "string \<Rightarrow> string \<Rightarrow> RouteSegment \<Rightarrow> adjacency \<Rightarrow> adjacency" where
  "graph_append u v s [] = [(u, [(v, [s])])]"
| "graph_append u v s ((k, nbrs) # rest) =
     (if k = u then (k, inner_append v s nbrs) # rest else (k, nbrs) # graph_append u v s rest)"

definition add_segment :: "RouteGraph \<Rightarrow> RouteSegment \<Rightarrow> RouteGraph" where
  "add_segment g segment =
     \<lparr>graph = graph_append (from_node segment) (to_node segment) segment (graph g),
      nodes = insert (to_node segment) (insert (from_node segment) (nodes g)),
      segments = segments g @ [segment]\<rparr>"


definition get_neighbors :: "RouteGraph \<Rightarrow> string \<Rightarrow> (string \<times> RouteSegment list) list" where
  "get_neighbors g node = (case map_of (graph g) node of None \<Rightarrow> [] | Some nbrs \<Rightarrow> nbrs)"

definition get_segments :: "RouteGraph \<Rightarrow> string \<Rightarrow> string \<Rightarrow> RouteSegment list" where
  "get_segments g u v = (case map_of (get_neighbors g u) v of None \<Rightarrow> [] | Some segs \<Rightarrow> segs)"

subsection \<open>Path search: \<open>RouteGraph.find_paths\<close>\<close>


definition truthy :: "string option \<Rightarrow> bool" where
  "truthy n = (case n of None \<Rightarrow> False | Some s \<Rightarrow> s \<noteq> [])"













section \<open>Decision layer (app/services/argmax\_decision.py)\<close>

text \<open>
  The exceptions the modelled code raises and catches; \<open>Message\<close> is the text of a result
  that explains itself without an exception.
\<close>

datatype error = TypeError | ValueError string | Message string

text \<open>
  Every numeric use of a \<open>None\<close> entry (arithmetic, comparison, \<open>min\<close>, \<open>max\<close>) raises
  \<open>TypeError\<close>; the read and its first use are one step here.
\<close>

fun cost_get :: "cost_entry \<Rightarrow> real \<Rightarrow> error + real" where
  "cost_get Absent d = Inr d"
| "cost_get PyNone d = Inl TypeError"
| "cost_get (Num x) d = Inr x"

fun latency_get :: "int option \<Rightarrow> int \<Rightarrow> int" where
  "latency_get None d = d"
| "latency_get (Some x) d = x"

record Metrics =
  total_cost :: real
  total_cost_percent :: real
  total_fixed_fee :: real
  total_latency :: real
  min_latency :: int
  max_latency :: int
  reliability :: real
  combined_score :: real
  num_segments :: nat

record Weights =
  alpha :: real
  beta :: real
  gamma :: real

type_synonym candidate = "RouteSegment list \<times> Metrics"

text \<open>\<open>ORToolsSolver._calculate_path_metrics\<close>, which produces the metrics of a candidate.\<close>

record SolverWeights =
  cost_weight :: real
  latency_weight :: real
  reliability_weight :: real

fun accumulate :: "RouteSegment list \<Rightarrow> real \<times> real \<times> int \<times> int \<times> real list
    \<Rightarrow> error + (real \<times> real \<times> int \<times> int \<times> real list)" where
  "accumulate [] acc = Inr acc"
| "accumulate (segment # rest) (tcp, tff, tmin, tmax, scores) =
     (case cost_get (fee_percent (cost segment)) 0 of
        Inl e \<Rightarrow> Inl e
      | Inr fp \<Rightarrow>
         (case cost_get (fixed_fee (cost segment)) 0 of
            Inl e \<Rightarrow> Inl e
          | Inr ff \<Rightarrow>
              accumulate rest
                (tcp + fp, tff + ff,
                 tmin + latency_get (min_minutes (latency segment)) 0,
                 tmax + latency_get (max_minutes (latency segment)) 0,
                 scores @ [reliability_score segment])))"

definition calculate_path_metrics :: "SolverWeights \<Rightarrow> RouteSegment list \<Rightarrow> error + Metrics" where
  "calculate_path_metrics sw path =
     (case accumulate path (0, 0, 0, 0, []) of
        Inl e \<Rightarrow> Inl e
      | Inr (tcp, tff, tmin, tmax, scores) \<Rightarrow>
          let avg_reliability = (if scores \<noteq> [] then sum_list scores / real (length scores) else 0);
              avg_latency_hours = (real_of_int (tmin + tmax) / 2) / 60
          in Inr \<lparr>total_cost = tcp + tff * 0.0001,
                   total_cost_percent = tcp,
                   total_fixed_fee = tff,
                   total_latency = real_of_int (tmin + tmax) / 2,
                   min_latency = tmin,
                   max_latency = tmax,
                   reliability = avg_reliability,
                   combined_score = cost_weight sw * (tcp + tff * 0.0001)
                                      + latency_weight sw * avg_latency_hours
                                      + reliability_weight sw * (1 - avg_reliability),
                   num_segments = length path\<rparr>)"

text \<open>
  \<open>ArgMaxDecisionLayer.select_optimal_route\<close>. The source returns the triple
  \<open>(None, {}, 0.0)\<close> for an empty candidate list; that triple is \<open>None\<close> here.
  \<open>min_or d xs\<close> is \<open>min(xs) if xs else d\<close>.
\<close>

fun min_or :: "real \<Rightarrow> real list \<Rightarrow> real" where
  "min_or d [] = d"
| "min_or d (x # xs) = foldl min x xs"

fun max_or :: "real \<Rightarrow> real list \<Rightarrow> real" where
  "max_or d [] = d"
| "max_or d (x # xs) = foldl max x xs"

definition range_of :: "real list \<Rightarrow> real" where
  "range_of xs = (if max_or 1 xs > min_or 0 xs then max_or 1 xs - min_or 0 xs else 1)"

definition min_max_normalize :: "real list \<Rightarrow> real \<Rightarrow> real" where
  "min_max_normalize xs x = (if range_of xs > 0 then (x - min_or 0 xs) / range_of xs else 0)"

definition costs_of :: "candidate list \<Rightarrow> real list" where
  "costs_of candidate_routes = map (\<lambda>(path, m). total_cost m) candidate_routes"

definition latencies_of :: "candidate list \<Rightarrow> real list" where
  "latencies_of candidate_routes = map (\<lambda>(path, m). total_latency m) candidate_routes"

definition reliabilities_of :: "candidate list \<Rightarrow> real list" where
  "reliabilities_of candidate_routes = map (\<lambda>(path, m). reliability m) candidate_routes"

definition route_score :: "Weights \<Rightarrow> candidate list \<Rightarrow> Metrics \<Rightarrow> real" where
  "route_score w candidate_routes metrics =
     (let costs = costs_of candidate_routes;
          latencies = latencies_of candidate_routes;
          reliabilities = reliabilities_of candidate_routes;
          norm_cost = min_max_normalize costs (total_cost metrics);
          norm_latency = min_max_normalize latencies (total_latency metrics);
          norm_reliability = 1 - min_max_normalize reliabilities (reliability metrics)
      in alpha w * norm_cost + beta w * norm_latency + gamma w * norm_reliability)"

definition normalized_routes :: "Weights \<Rightarrow> candidate list \<Rightarrow> (RouteSegment list \<times> Metrics \<times> real) list" where
  "normalized_routes w candidate_routes =
     map (\<lambda>(path, metrics). (path, metrics, route_score w candidate_routes metrics)) candidate_routes"

text \<open>The first index of a least element, as \<open>numpy.argmin\<close> and \<open>min(range(n), key=...)\<close> return it.\<close>

fun argmin_scan :: "nat \<Rightarrow> real \<Rightarrow> nat \<Rightarrow> real list \<Rightarrow> nat" where
  "argmin_scan best_i best i [] = best_i"
| "argmin_scan best_i best i (x # xs) =
     (if x < best then argmin_scan i x (Suc i) xs else argmin_scan best_i best (Suc i) xs)"

fun argmin :: "real list \<Rightarrow> nat" where
  "argmin [] = 0"
| "argmin (x # xs) = argmin_scan 0 x 1 xs"

definition select_optimal_route :: "Weights \<Rightarrow> candidate list \<Rightarrow> (RouteSegment list \<times> Metrics \<times> real) option" where
  "select_optimal_route w candidate_routes =
     (if candidate_routes = [] then None
      else let scored = normalized_routes w candidate_routes;
               optimal_idx = argmin (map (\<lambda>(path, metrics, score). score) scored)
           in Some (scored ! optimal_idx))"


text \<open>
  The score as the specification words it: the cost term normalizes \<open>total_cost_percent\<close>
  where the source reads the key \<open>total_cost\<close>.
\<close>

definition spec_route_score :: "Weights \<Rightarrow> candidate list \<Rightarrow> Metrics \<Rightarrow> real" where
  "spec_route_score w candidate_routes metrics =
     (let costs = map (\<lambda>(path, m). total_cost_percent m) candidate_routes;
          latencies = latencies_of candidate_routes;
          reliabilities = reliabilities_of candidate_routes;
          norm_cost = min_max_normalize costs (total_cost_percent metrics);
          norm_latency = min_max_normalize latencies (total_latency metrics);
          norm_reliability = 1 - min_max_normalize reliabilities (reliability metrics)
      in alpha w * norm_cost + beta w * norm_latency + gamma w * norm_reliability)"

definition default_weights :: Weights where
  "default_weights = \<lparr>alpha = 4/10, beta = 3/10, gamma = 3/10\<rparr>"

definition unit_weights :: SolverWeights where
  "unit_weights = \<lparr>cost_weight = 1, latency_weight = 1, reliability_weight = 1\<rparr>"

definition fx_leg :: "real \<Rightarrow> real \<Rightarrow> RouteSegment" where
  "fx_leg fp ff = \<lparr>segment_type = FX, from_asset = ''USD'', to_asset = ''EUR'',
     from_network = None, to_network = None,
     cost = \<lparr>fee_percent = Num fp, fixed_fee = Num ff, effective_fx_rate = Num (92/100)\<rparr>,
     latency = \<lparr>min_minutes = Some 5, max_minutes = Some 15\<rparr>,
     reliability_score = 9/10, provider = None\<rparr>"

definition metrics_a :: Metrics where
  "metrics_a = \<lparr>total_cost = 1, total_cost_percent = 1, total_fixed_fee = 0,
     total_latency = 10, min_latency = 5, max_latency = 15, reliability = 9/10,
     combined_score = 19/15, num_segments = 1\<rparr>"

definition metrics_b :: Metrics where
  "metrics_b = \<lparr>total_cost = 11/10, total_cost_percent = 9/10, total_fixed_fee = 2000,
     total_latency = 10, min_latency = 5, max_latency = 15, reliability = 9/10,
     combined_score = 41/30, num_segments = 1\<rparr>"

definition two_candidates :: "candidate list" where
  "two_candidates = [([fx_leg 1 0], metrics_a), ([fx_leg (9/10) 2000], metrics_b)]"

section \<open>Settlement simulator (app/services/execution/simulator.py)\<close>

text \<open>
  The simulator draws wallet addresses, transaction hashes, block counts and processing
  times at random. One \<open>Oracle\<close> holds the draws of one segment execution; \<open>randint\<close> and
  \<open>uniform\<close> give the value drawn for a range. \<open>random.randint(a, b)\<close> raises
  \<open>ValueError\<close> on an empty range.
\<close>

record Oracle =
  fresh_wallet :: string
  fresh_tx_hash :: string
  fresh_id :: string
  randint :: "int \<Rightarrow> int \<Rightarrow> int"
  uniform :: "real \<Rightarrow> real \<Rightarrow> real"

record Transaction =
  tx_type :: string
  tx_from_address :: "string option"
  tx_asset :: string
  tx_amount :: real
  tx_network :: "string option"
  tx_status :: string
  tx_confirmations :: int

record Simulator =
  wallets :: "string \<rightharpoonup> (string \<rightharpoonup> real)"
  transactions :: "string \<rightharpoonup> Transaction"
  confirmations :: "string \<rightharpoonup> int"

definition py_randint :: "Oracle \<Rightarrow> int \<Rightarrow> int \<Rightarrow> error + int" where
  "py_randint orc a b =
     (if a > b then Inl (ValueError ''empty range for randrange()'') else Inr (randint orc a b))"

definition generate_wallet :: "Oracle \<Rightarrow> Simulator \<Rightarrow> string \<times> Simulator" where
  "generate_wallet orc sim =
     (let wallet_id = fresh_wallet orc
      in (wallet_id,
          if wallets sim wallet_id = None
          then sim\<lparr>wallets := (wallets sim)(wallet_id \<mapsto> Map.empty)\<rparr> else sim))"

definition get_balance :: "Simulator \<Rightarrow> string \<Rightarrow> string \<Rightarrow> real \<times> Simulator" where
  "get_balance sim wallet_id asset =
     (case wallets sim wallet_id of
        None \<Rightarrow> (0, sim\<lparr>wallets := (wallets sim)(wallet_id \<mapsto> Map.empty)\<rparr>)
      | Some w \<Rightarrow> ((case w asset of None \<Rightarrow> 0 | Some b \<Rightarrow> b), sim))"

definition balance_of :: "Simulator \<Rightarrow> string \<Rightarrow> string \<Rightarrow> real" where
  "balance_of sim wallet_id asset = fst (get_balance sim wallet_id asset)"

definition set_balance :: "Simulator \<Rightarrow> string \<Rightarrow> string \<Rightarrow> real \<Rightarrow> Simulator" where
  "set_balance sim wallet_id asset amount =
     (let w = (case wallets sim wallet_id of None \<Rightarrow> Map.empty | Some w \<Rightarrow> w)
      in sim\<lparr>wallets := (wallets sim)(wallet_id \<mapsto> w(asset \<mapsto> amount))\<rparr>)"

text \<open>
  Balances are Python floats, and the ledger adds to and subtracts from them: here the
  rounding matters, because a balance reached by two operations is compared with an amount
  that was not. \<open>fl x\<close> is \<open>x\<close> rounded to the nearest IEEE 754 double, ties to even, for
  magnitudes in the normal range of doubles (overflow and subnormal numbers are not
  modelled). \<open>normalise\<close> scales the magnitude into the interval from \<open>2 ^ 52\<close> to \<open>2 ^ 53\<close>,
  where the doubles are the integers; its first argument bounds the number of steps and
  exceeds the exponent range of doubles.
\<close>

fun normalise :: "nat \<Rightarrow> real \<Rightarrow> int \<Rightarrow> real \<times> int" where
  "normalise 0 m e = (m, e)"
| "normalise (Suc fuel) m e =
     (if m \<ge> 2 ^ 53 then normalise fuel (m / 2) (e + 1)
      else if m < 2 ^ 52 then normalise fuel (m * 2) (e - 1)
      else (m, e))"

definition round_half_even :: "real \<Rightarrow> int" where
  "round_half_even m =
     (let f = \<lfloor>m\<rfloor>; r = m - of_int f
      in if r < 1 / 2 then f else if r > 1 / 2 then f + 1 else if even f then f else f + 1)"

definition fl :: "real \<Rightarrow> real" where
  "fl x =
     (if x = 0 then 0
      else let (m, e) = normalise 2200 \<bar>x\<bar> 0;
               q = of_int (round_half_even m)
           in sgn x * (if e \<ge> 0 then q * 2 ^ nat e else q / 2 ^ nat (- e)))"

definition add_balance :: "Simulator \<Rightarrow> string \<Rightarrow> string \<Rightarrow> real \<Rightarrow> Simulator" where
  "add_balance sim wallet_id asset amount =
     (let (current, sim1) = get_balance sim wallet_id asset
      in set_balance sim1 wallet_id asset (fl (current + amount)))"

definition subtract_balance :: "Simulator \<Rightarrow> string \<Rightarrow> string \<Rightarrow> real \<Rightarrow> bool \<times> Simulator" where
  "subtract_balance sim wallet_id asset amount =
     (let (current, sim1) = get_balance sim wallet_id asset
      in if current \<ge> amount
         then (True, set_balance sim1 wallet_id asset (fl (current - amount)))
         else (False, sim1))"

definition create_transaction :: "Oracle \<Rightarrow> Simulator \<Rightarrow> string \<Rightarrow> string option \<Rightarrow> string
    \<Rightarrow> real \<Rightarrow> string option \<Rightarrow> string \<times> Simulator" where
  "create_transaction orc sim ty from_address asset amount network =
     (let tx_hash = fresh_tx_hash orc
      in (tx_hash,
          sim\<lparr>transactions := (transactions sim)(tx_hash \<mapsto>
                  \<lparr>tx_type = ty, tx_from_address = from_address, tx_asset = asset,
                   tx_amount = amount, tx_network = network, tx_status = ''pending'',
                   tx_confirmations = 0\<rparr>),
               confirmations := (confirmations sim)(tx_hash \<mapsto> 0)\<rparr>))"

text \<open>\<open>simulate_confirmation\<close> returns the block count and the confirmation time in seconds.\<close>

definition simulate_confirmation :: "Oracle \<Rightarrow> Simulator \<Rightarrow> string \<Rightarrow> int \<Rightarrow> int \<Rightarrow> real
    \<Rightarrow> error + ((int \<times> real) \<times> Simulator)" where
  "simulate_confirmation orc sim tx_hash min_blocks max_blocks block_time_seconds =
     (case transactions sim tx_hash of
        None \<Rightarrow> Inl (ValueError ''Transaction not found'')
      | Some tx \<Rightarrow>
          (case py_randint orc min_blocks max_blocks of
             Inl e \<Rightarrow> Inl e
           | Inr blocks_to_confirm \<Rightarrow>
               Inr ((blocks_to_confirm, real_of_int blocks_to_confirm * block_time_seconds),
                    sim\<lparr>transactions := (transactions sim)(tx_hash \<mapsto>
                            tx\<lparr>tx_status := ''confirmed'', tx_confirmations := blocks_to_confirm\<rparr>),
                         confirmations := (confirmations sim)(tx_hash \<mapsto> blocks_to_confirm)\<rparr>)))"

text \<open>\<open>simulate_bank_transfer\<close> returns the processing time in hours.\<close>

definition simulate_bank_transfer :: "Oracle \<Rightarrow> real \<Rightarrow> real \<Rightarrow> real" where
  "simulate_bank_transfer orc min_hours max_hours = uniform orc min_hours max_hours"

text \<open>\<open>simulate_fx_conversion\<close> returns the processing time in minutes.\<close>

definition simulate_fx_conversion :: "Oracle \<Rightarrow> int \<Rightarrow> int \<Rightarrow> error + int" where
  "simulate_fx_conversion orc lo hi = py_randint orc lo hi"

section \<open>Segment executors (app/services/execution/segment\_executors.py)\<close>

text \<open>
  The executors are modelled in simulation mode (\<open>execution_mode\<close> other than \<open>real\<close>, or no
  provider client), which is also the path a failed provider call falls back to. A result
  keeps the fields the orchestrator reads; \<open>wallet_address\<close> is the entry of that name in
  \<open>simulation_data\<close>.
\<close>

datatype SegmentExecutionStatus =
  SEG_PENDING | SEG_EXECUTING | SEG_CONFIRMING | SEG_COMPLETED | SEG_FAILED | SEG_SKIPPED

record SegmentExecutionResult =
  segment_index :: nat
  executed_type :: "SegmentType option"
  status :: SegmentExecutionStatus
  input_amount :: real
  output_amount :: real
  fees_paid :: real
  transaction_hash :: "string option"
  confirmation_time_minutes :: "real option"
  error_message :: "error option"
  wallet_address :: "string option"

definition failed_result :: "nat \<Rightarrow> RouteSegment \<Rightarrow> real \<Rightarrow> error \<Rightarrow> SegmentExecutionResult" where
  "failed_result idx segment amount e =
     \<lparr>segment_index = idx, executed_type = Some (segment_type segment), status = SEG_FAILED,
      input_amount = amount, output_amount = 0, fees_paid = 0, transaction_hash = None,
      confirmation_time_minutes = None, error_message = Some e, wallet_address = None\<rparr>"

definition completed_result :: "nat \<Rightarrow> RouteSegment \<Rightarrow> real \<Rightarrow> real \<Rightarrow> real \<Rightarrow> string option
    \<Rightarrow> real \<Rightarrow> string option \<Rightarrow> SegmentExecutionResult" where
  "completed_result idx segment amount output fees tx_hash minutes wallet =
     \<lparr>segment_index = idx, executed_type = Some (segment_type segment), status = SEG_COMPLETED,
      input_amount = amount, output_amount = output, fees_paid = fees, transaction_hash = tx_hash,
      confirmation_time_minutes = Some minutes, error_message = None, wallet_address = wallet\<rparr>"

text \<open>
  The block ``Calculate fees and output amount with validation'', which the crypto, ramp
  and bank-rail executors repeat verbatim up to the text of the error message.
\<close>

definition validated_amounts :: "Cost \<Rightarrow> real \<Rightarrow> error + (real \<times> real)" where
  "validated_amounts c amount =
     (case cost_get (fee_percent c) 0 of
        Inl e \<Rightarrow> Inl e
      | Inr fp \<Rightarrow>
         (case cost_get (fixed_fee c) 0 of
            Inl e \<Rightarrow> Inl e
          | Inr ff \<Rightarrow>
             (case cost_get (effective_fx_rate c) 1 of
                Inl e \<Rightarrow> Inl e
              | Inr rate \<Rightarrow>
                  if rate \<le> 0 then Inl (ValueError ''Invalid rate'')
                  else if amount < 0 then Inl (ValueError ''Invalid input amount'')
                  else let fees = amount * max 0 (min 100 fp) / 100 + max 0 ff;
                           amount_after_fees = max 0 (amount - fees)
                       in Inr (fees, amount_after_fees * rate))))"

text \<open>The FX executor computes the amounts without clamping and without validation.\<close>

definition fx_amounts :: "Cost \<Rightarrow> real \<Rightarrow> error + (real \<times> real)" where
  "fx_amounts c amount =
     (case cost_get (fee_percent c) 0 of
        Inl e \<Rightarrow> Inl e
      | Inr fp \<Rightarrow>
         (case cost_get (fixed_fee c) 0 of
            Inl e \<Rightarrow> Inl e
          | Inr ff \<Rightarrow>
             (case cost_get (effective_fx_rate c) 1 of
                Inl e \<Rightarrow> Inl e
              | Inr fx_rate \<Rightarrow>
                  let fees = amount * fp / 100 + ff;
                      amount_after_fees = amount - fees
                  in Inr (fees, amount_after_fees * fx_rate))))"

text \<open>The bridge executor never reads the rate: the asset is the same on both networks.\<close>

definition bridge_amounts :: "Cost \<Rightarrow> real \<Rightarrow> error + (real \<times> real)" where
  "bridge_amounts c amount =
     (case cost_get (fee_percent c) 0 of
        Inl e \<Rightarrow> Inl e
      | Inr fp \<Rightarrow>
         (case cost_get (fixed_fee c) 0 of
            Inl e \<Rightarrow> Inl e
          | Inr ff \<Rightarrow>
              if amount < 0 then Inl (ValueError ''Invalid input amount'')
              else let fees = amount * max 0 (min 100 fp) / 100 + max 0 ff
                   in Inr (fees, max 0 (amount - fees))))"

text \<open>\<open>if not wallet_address: wallet_address = self.simulator.generate_wallet(network)\<close>\<close>

definition obtain_wallet :: "Oracle \<Rightarrow> Simulator \<Rightarrow> string option \<Rightarrow> string \<times> Simulator" where
  "obtain_wallet orc sim wallet =
     (case wallet of
        None \<Rightarrow> generate_wallet orc sim
      | Some a \<Rightarrow> if a = [] then generate_wallet orc sim else (a, sim))"

text \<open>
  The step ``Ensure wallet has balance'' of the crypto, bridge and off-ramp executors. The
  difference \<open>input_amount - current_balance\<close> is a float subtraction, and \<open>add_balance\<close>
  adds it to the balance with a second rounding.
\<close>

definition ensure_balance :: "Simulator \<Rightarrow> string \<Rightarrow> string \<Rightarrow> real \<Rightarrow> Simulator" where
  "ensure_balance sim wallet asset amount =
     (let (current_balance, sim1) = get_balance sim wallet asset
      in if current_balance < amount
         then add_balance sim1 wallet asset (fl (amount - current_balance)) else sim1)"

definition py_int :: "real \<Rightarrow> int" where
  "py_int x = (if x \<ge> 0 then \<lfloor>x\<rfloor> else \<lceil>x\<rceil>)"

definition block_time_of :: "RouteSegment \<Rightarrow> real" where
  "block_time_of segment = (if from_network segment \<noteq> Some ''polygon'' then 12 else 2)"

text \<open>
  The tail shared by the crypto, bridge and off-ramp executors: debit the wallet (the
  result of \<open>subtract_balance\<close> is discarded by the source), create the transaction and
  wait for its confirmation. The confirmation cannot raise here, since the transaction has
  just been registered and the block range is not empty; the error branch is kept as the
  source has it.
\<close>

definition debit_and_confirm :: "Oracle \<Rightarrow> Simulator \<Rightarrow> string \<Rightarrow> RouteSegment \<Rightarrow> string \<Rightarrow> real
    \<Rightarrow> int \<Rightarrow> int \<Rightarrow> error + ((string \<times> real) \<times> Simulator)" where
  "debit_and_confirm orc sim ty segment wallet amount default_min default_max =
     (let (debited, sim1) = subtract_balance sim wallet (from_asset segment) amount;
          (tx_hash, sim2) = create_transaction orc sim1 ty (Some wallet) (from_asset segment)
                              amount (from_network segment);
          block_time = block_time_of segment;
          min_blocks = max 1 (py_int (real_of_int
                         (latency_get (min_minutes (latency segment)) default_min) * 60 / block_time));
          max_blocks = max min_blocks (py_int (real_of_int
                         (latency_get (max_minutes (latency segment)) default_max) * 60 / block_time))
      in case simulate_confirmation orc sim2 tx_hash min_blocks max_blocks block_time of
           Inl e \<Rightarrow> Inl e
         | Inr ((blocks, seconds), sim3) \<Rightarrow> Inr ((tx_hash, seconds / 60), sim3))"

type_synonym executor =
  "Oracle \<Rightarrow> Simulator \<Rightarrow> RouteSegment \<Rightarrow> real \<Rightarrow> string option \<Rightarrow> nat
     \<Rightarrow> SegmentExecutionResult \<times> Simulator"

definition FXExecutor :: executor where
  "FXExecutor orc sim segment amount wallet idx =
     (case fx_amounts (cost segment) amount of
        Inl e \<Rightarrow> (failed_result idx segment amount e, sim)
      | Inr (fees, output) \<Rightarrow>
          (case simulate_fx_conversion orc (latency_get (min_minutes (latency segment)) 5)
                  (latency_get (max_minutes (latency segment)) 10) of
             Inl e \<Rightarrow> (failed_result idx segment amount e, sim)
           | Inr minutes \<Rightarrow>
               (completed_result idx segment amount output fees None (real_of_int minutes) None,
                sim)))"

definition CryptoExecutor :: executor where
  "CryptoExecutor orc sim segment amount wallet idx =
     (let (w, sim1) = obtain_wallet orc sim wallet;
          sim2 = ensure_balance sim1 w (from_asset segment) amount
      in case validated_amounts (cost segment) amount of
           Inl e \<Rightarrow> (failed_result idx segment amount e, sim2)
         | Inr (fees, output) \<Rightarrow>
             (case debit_and_confirm orc sim2 ''swap'' segment w amount 2 5 of
                Inl e \<Rightarrow> (failed_result idx segment amount e, sim2)
              | Inr ((tx_hash, minutes), sim3) \<Rightarrow>
                  (completed_result idx segment amount output fees (Some tx_hash) minutes (Some w),
                   add_balance sim3 w (to_asset segment) output)))"

definition BridgeExecutor :: executor where
  "BridgeExecutor orc sim segment amount wallet idx =
     (let (w, sim1) = obtain_wallet orc sim wallet;
          sim2 = ensure_balance sim1 w (from_asset segment) amount
      in case bridge_amounts (cost segment) amount of
           Inl e \<Rightarrow> (failed_result idx segment amount e, sim2)
         | Inr (fees, output) \<Rightarrow>
             (case debit_and_confirm orc sim2 ''bridge'' segment w amount 5 15 of
                Inl e \<Rightarrow> (failed_result idx segment amount e, sim2)
              | Inr ((tx_hash, minutes), sim3) \<Rightarrow>
                  (completed_result idx segment amount output fees (Some tx_hash) minutes None,
                   add_balance sim3 w (to_asset segment) output)))"

definition RampExecutor :: executor where
  "RampExecutor orc sim segment amount wallet idx =
     (if segment_type segment = ON_RAMP then
        (let (w, sim1) = obtain_wallet orc sim wallet
         in case validated_amounts (cost segment) amount of
              Inl e \<Rightarrow> (failed_result idx segment amount e, sim1)
            | Inr (fees, output) \<Rightarrow>
                (let processing_minutes =
                       uniform orc (real_of_int (latency_get (min_minutes (latency segment)) 10))
                                   (real_of_int (latency_get (max_minutes (latency segment)) 30))
                 in (completed_result idx segment amount output fees None processing_minutes (Some w),
                     add_balance sim1 w (to_asset segment) output)))
      else
        (let (w, sim1) = obtain_wallet orc sim wallet;
             sim2 = ensure_balance sim1 w (from_asset segment) amount
         in case validated_amounts (cost segment) amount of
              Inl e \<Rightarrow> (failed_result idx segment amount e, sim2)
            | Inr (fees, output) \<Rightarrow>
                (case debit_and_confirm orc sim2 ''off_ramp'' segment w amount 5 15 of
                   Inl e \<Rightarrow> (failed_result idx segment amount e, sim2)
                 | Inr ((tx_hash, minutes), sim3) \<Rightarrow>
                     (completed_result idx segment amount output fees (Some tx_hash) minutes (Some w),
                      sim3))))"

definition BankRailExecutor :: executor where
  "BankRailExecutor orc sim segment amount wallet idx =
     (case validated_amounts (cost segment) amount of
        Inl e \<Rightarrow> (failed_result idx segment amount e, sim)
      | Inr (fees, output) \<Rightarrow>
          (let processing_hours =
                 simulate_bank_transfer orc
                   (real_of_int (latency_get (min_minutes (latency segment)) 30) / 60)
                   (real_of_int (latency_get (max_minutes (latency segment)) 120) / 60)
           in (completed_result idx segment amount output fees None (processing_hours * 60) None,
               sim)))"

text \<open>The dispatch table \<open>self.executors\<close> of the execution service.\<close>

fun executors :: "SegmentType \<Rightarrow> executor option" where
  "executors FX = Some FXExecutor"
| "executors CRYPTO = Some CryptoExecutor"
| "executors BRIDGE = Some BridgeExecutor"
| "executors ON_RAMP = Some RampExecutor"
| "executors OFF_RAMP = Some RampExecutor"
| "executors BANK_RAIL = Some BankRailExecutor"
| "executors GAS = None"
| "executors LIQUIDITY = None"

definition example_cost :: "real \<Rightarrow> Cost" where
  "example_cost rate = \<lparr>fee_percent = Num (1/10), fixed_fee = Num 0, effective_fx_rate = Num rate\<rparr>"

definition example_segment :: "SegmentType \<Rightarrow> real \<Rightarrow> RouteSegment" where
  "example_segment ty rate = \<lparr>segment_type = ty, from_asset = ''USDC'', to_asset = ''EURC'',
     from_network = Some ''ethereum'', to_network = Some ''ethereum'',
     cost = example_cost rate,
     latency = \<lparr>min_minutes = Some 5, max_minutes = Some 10\<rparr>,
     reliability_score = 1, provider = None\<rparr>"

definition example_oracle :: Oracle where
  "example_oracle = \<lparr>fresh_wallet = ''0xw'', fresh_tx_hash = ''0xt'', fresh_id = ''id'',
     randint = (\<lambda>a b. a), uniform = (\<lambda>a b. a)\<rparr>"

definition empty_simulator :: Simulator where
  "empty_simulator = \<lparr>wallets = Map.empty, transactions = Map.empty, confirmations = Map.empty\<rparr>"

section \<open>Execution orchestrator (app/services/execution/advanced\_execution\_service.py)\<close>

datatype ExecutionStatus =
  EXEC_PENDING | EXEC_IN_PROGRESS | EXEC_PAUSED | EXEC_COMPLETED | EXEC_FAILED | EXEC_CANCELLED
  | EXEC_REROUTING

datatype ExecutionState = RUNNING | PAUSED | CANCELLING | REROUTING

record RouteExecutionResponse =
  response_status :: ExecutionStatus
  response_route :: "RouteSegment list"
  cost_percent :: real
  total_fees :: real
  request_amount :: real
  final_amount :: real
  eta_hours :: real
  response_reliability :: real
  segment_executions :: "SegmentExecutionResult list"
  total_time_minutes :: "real option"

text \<open>
  \<open>_execute_segment\<close>: the segment is validated again when the \<open>RouteSegment\<close> is rebuilt
  from the route entry (a reliability score outside [0, 1] is rejected), then dispatched. A
  type without an executor is skipped and passes its input through. Any exception ends in
  a failed result.
\<close>

definition skipped_result :: "nat \<Rightarrow> RouteSegment \<Rightarrow> real \<Rightarrow> SegmentExecutionResult" where
  "skipped_result idx segment amount =
     \<lparr>segment_index = idx, executed_type = Some (segment_type segment), status = SEG_SKIPPED,
      input_amount = amount, output_amount = amount, fees_paid = 0, transaction_hash = None,
      confirmation_time_minutes = None, error_message = Some (Message ''No executor''),
      wallet_address = None\<rparr>"

definition execute_segment :: "Oracle \<Rightarrow> Simulator \<Rightarrow> nat \<Rightarrow> RouteSegment \<Rightarrow> real \<Rightarrow> string option
    \<Rightarrow> SegmentExecutionResult \<times> Simulator" where
  "execute_segment orc sim idx segment amount wallet =
     (if reliability_score segment < 0 \<or> reliability_score segment > 1
      then (failed_result idx segment amount (ValueError ''reliability_score''), sim)
      else case executors (segment_type segment) of
             None \<Rightarrow> (skipped_result idx segment amount, sim)
           | Some ex \<Rightarrow> ex orc sim segment amount wallet idx)"

text \<open>
  What the orchestrator takes from outside: \<open>control idx\<close> is the state a control operation
  (pause, cancel, reroute) has written since the previous read, as the read at loop
  iteration \<open>idx\<close> sees it; \<open>resumed_as idx\<close> is the state that ends the polling wait entered
  at iteration \<open>idx\<close>, or \<open>None\<close> when the wait never ends; \<open>should_reroute\<close> is the outcome
  of the reroute trigger and \<open>calculate_reroute\<close> the route computed by the routing service
  (\<open>None\<close> when \<open>_calculate_reroute\<close> returns \<open>None\<close>), both from the segment index and the
  current amount; \<open>draws idx\<close> holds the random draws of the execution of segment \<open>idx\<close>.
\<close>

record Environment =
  control :: "nat \<Rightarrow> ExecutionState option"
  resumed_as :: "nat \<Rightarrow> ExecutionState option"
  should_reroute :: "nat \<Rightarrow> real \<Rightarrow> bool"
  calculate_reroute :: "nat \<Rightarrow> real \<Rightarrow> RouteSegment list option"
  draws :: "nat \<Rightarrow> Oracle"

record ExecutionData =
  simulator :: Simulator
  execution_state :: ExecutionState
  route :: "RouteSegment list"
  executions :: "SegmentExecutionResult list"
  current_amount :: real
  current_wallet :: "string option"
  current_segment :: nat

definition initial_data :: "Simulator \<Rightarrow> RouteSegment list \<Rightarrow> real \<Rightarrow> ExecutionData" where
  "initial_data sim route_segments amount =
     \<lparr>simulator = sim, execution_state = RUNNING, route = route_segments, executions = [],
      current_amount = amount, current_wallet = None, current_segment = 0\<rparr>"

definition observe :: "Environment \<Rightarrow> nat \<Rightarrow> ExecutionData \<Rightarrow> ExecutionData" where
  "observe env idx d =
     (case control env idx of None \<Rightarrow> d | Some st \<Rightarrow> d\<lparr>execution_state := st\<rparr>)"

definition minutes_or_zero :: "SegmentExecutionResult \<Rightarrow> real" where
  "minutes_or_zero seg = (case confirmation_time_minutes seg of None \<Rightarrow> 0 | Some m \<Rightarrow> m)"

definition build_response :: "ExecutionData \<Rightarrow> real \<Rightarrow> RouteExecutionResponse" where
  "build_response d amount =
     (let fees = sum_list (map fees_paid (executions d));
          total_time = sum_list (map minutes_or_zero (executions d))
      in \<lparr>response_status =
             (if list_ex (\<lambda>seg. status seg = SEG_FAILED) (executions d) then EXEC_FAILED
              else if execution_state d = CANCELLING then EXEC_CANCELLED
              else EXEC_COMPLETED),
           response_route = route d,
           cost_percent = (if amount > 0 then fees / amount * 100 else 0),
           total_fees = fees,
           request_amount = amount,
           final_amount = current_amount d,
           eta_hours = total_time / 60,
           response_reliability = 0.9,
           segment_executions = executions d,
           total_time_minutes = Some total_time\<rparr>)"

definition handle_cancellation :: "ExecutionData \<Rightarrow> real \<Rightarrow> RouteExecutionResponse" where
  "handle_cancellation d original_amount =
     \<lparr>response_status = EXEC_CANCELLED,
      response_route = route d,
      cost_percent = 0,
      total_fees = sum_list (map fees_paid (executions d)),
      request_amount = original_amount,
      final_amount = (if executions d \<noteq> [] then output_amount (last (executions d))
                      else original_amount),
      eta_hours = 0,
      response_reliability = 0,
      segment_executions = executions d,
      total_time_minutes = None\<rparr>"

subsection \<open>Sequential mode\<close>

text \<open>
  One pass of the body of \<open>for idx, segment_dict in enumerate(route_segments)\<close> either goes
  on to the next item of the iterator (\<open>Next\<close>, also for \<open>continue\<close>), leaves the function
  with a response (\<open>Done\<close>, for \<open>return\<close> and for \<open>break\<close> followed by \<open>_build_response\<close>),
  or never returns (\<open>Blocked\<close>). The iterator is created once from the list the function
  was called with: assigning a new list to the variable \<open>route_segments\<close> inside the loop
  changes the field \<open>route\<close> only, not the items still to come.
\<close>

datatype outcome = Next ExecutionData | Done RouteExecutionResponse | Blocked

definition run_segment :: "Environment \<Rightarrow> nat \<Rightarrow> RouteSegment \<Rightarrow> real \<Rightarrow> ExecutionData \<Rightarrow> outcome" where
  "run_segment env idx segment amount d =
     (let (segment_result, sim') =
            execute_segment (draws env idx) (simulator d) idx segment (current_amount d)
              (current_wallet d);
          d1 = d\<lparr>simulator := sim',
                 executions := executions d @ [segment_result],
                 current_segment := idx + 1,
                 current_wallet := (if truthy (wallet_address segment_result)
                                    then wallet_address segment_result else current_wallet d)\<rparr>
      in if status segment_result = SEG_FAILED then Done (build_response d1 amount)
         else Next (d1\<lparr>current_amount := output_amount segment_result\<rparr>))"

definition reroute_or_run :: "Environment \<Rightarrow> bool \<Rightarrow> nat \<Rightarrow> RouteSegment \<Rightarrow> real \<Rightarrow> ExecutionData
    \<Rightarrow> outcome" where
  "reroute_or_run env enable_ai_rerouting idx segment amount d =
     (if enable_ai_rerouting \<and> idx > 0 \<and> should_reroute env idx (current_amount d) then
        (case calculate_reroute env idx (current_amount d) of
           None \<Rightarrow> run_segment env idx segment amount d
         | Some new_route \<Rightarrow>
             (let d1 = d\<lparr>execution_state := REROUTING\<rparr>
              in if new_route \<noteq> [] then Next (d1\<lparr>route := new_route\<rparr>)
                 else run_segment env idx segment amount d1))
      else run_segment env idx segment amount d)"

definition iteration :: "Environment \<Rightarrow> bool \<Rightarrow> nat \<Rightarrow> RouteSegment \<Rightarrow> real \<Rightarrow> ExecutionData
    \<Rightarrow> outcome" where
  "iteration env enable_ai_rerouting idx segment amount d =
     (let d0 = observe env idx d
      in case execution_state d0 of
           CANCELLING \<Rightarrow> Done (handle_cancellation d0 amount)
         | PAUSED \<Rightarrow>
             (case resumed_as env idx of
                None \<Rightarrow> Blocked
              | Some st \<Rightarrow>
                  reroute_or_run env enable_ai_rerouting idx segment amount
                    (d0\<lparr>execution_state := st\<rparr>))
         | REROUTING \<Rightarrow> Next d0
         | RUNNING \<Rightarrow> reroute_or_run env enable_ai_rerouting idx segment amount d0)"

fun sequential_loop :: "Environment \<Rightarrow> bool \<Rightarrow> real \<Rightarrow> nat \<Rightarrow> RouteSegment list \<Rightarrow> ExecutionData
    \<Rightarrow> RouteExecutionResponse option" where
  "sequential_loop env ai amount idx [] d = Some (build_response (observe env idx d) amount)"
| "sequential_loop env ai amount idx (segment # rest) d =
     (case iteration env ai idx segment amount d of
        Next d' \<Rightarrow> sequential_loop env ai amount (Suc idx) rest d'
      | Done response \<Rightarrow> Some response
      | Blocked \<Rightarrow> None)"

definition execute_sequential :: "Environment \<Rightarrow> Simulator \<Rightarrow> RouteSegment list \<Rightarrow> real \<Rightarrow> bool
    \<Rightarrow> RouteExecutionResponse option" where
  "execute_sequential env sim route_segments amount enable_ai_rerouting =
     sequential_loop env enable_ai_rerouting amount 0 route_segments
       (initial_data sim route_segments amount)"


subsection \<open>Parallel mode\<close>

fun group_loop :: "(nat \<times> RouteSegment) list \<Rightarrow> (nat \<times> RouteSegment) list list
    \<Rightarrow> (nat \<times> RouteSegment) list \<Rightarrow> (nat \<times> RouteSegment) list list" where
  "group_loop [] groups current_group =
     (if current_group \<noteq> [] then groups @ [current_group] else groups)"
| "group_loop ((idx, segment) # rest) groups current_group =
     (if segment_type segment \<in> {FX, CRYPTO} \<and> length current_group < 3
      then group_loop rest groups (current_group @ [(idx, segment)])
      else group_loop rest
             (if current_group \<noteq> [] then groups @ [current_group] else groups)
             [(idx, segment)])"

definition group_parallel_segments :: "RouteSegment list \<Rightarrow> (nat \<times> RouteSegment) list list" where
  "group_parallel_segments route_segments = group_loop (enumerate 0 route_segments) [] []"

text \<open>
  \<open>asyncio.gather\<close> over the tasks of one group: every task receives the amount and the
  wallet the group started with. The simulator is threaded through the tasks in list order;
  the amounts and statuses of the results do not depend on it.
\<close>

fun gather :: "Environment \<Rightarrow> (nat \<times> RouteSegment) list \<Rightarrow> real \<Rightarrow> string option \<Rightarrow> Simulator
    \<Rightarrow> SegmentExecutionResult list \<times> Simulator" where
  "gather env [] amount wallet sim = ([], sim)"
| "gather env ((seg_idx, segment) # tasks) amount wallet sim =
     (let (r, sim1) = execute_segment (draws env seg_idx) sim seg_idx segment amount wallet;
          (rs, sim2) = gather env tasks amount wallet sim1
      in (r # rs, sim2))"

fun process_results :: "SegmentExecutionResult list \<Rightarrow> ExecutionData \<Rightarrow> ExecutionData" where
  "process_results [] d = d"
| "process_results (segment_result # rs) d =
     process_results rs
       (d\<lparr>executions := executions d @ [segment_result],
          current_wallet := (if truthy (wallet_address segment_result)
                             then wallet_address segment_result else current_wallet d),
          current_amount := (if output_amount segment_result > current_amount d
                             then output_amount segment_result else current_amount d)\<rparr>)"

fun parallel_loop :: "Environment \<Rightarrow> (nat \<times> RouteSegment) list list \<Rightarrow> ExecutionData
    \<Rightarrow> ExecutionData" where
  "parallel_loop env [] d = d"
| "parallel_loop env (batch # batches) d =
     (let (results, sim') = gather env batch (current_amount d) (current_wallet d) (simulator d);
          d1 = process_results results (d\<lparr>simulator := sim'\<rparr>)
      in parallel_loop env batches (d1\<lparr>current_segment := fst (last batch) + 1\<rparr>))"

text \<open>
  \<open>_execute_parallel\<close> never reads the execution state; \<open>_build_response\<close> reads it once
  at the end. By then the control operations \<open>control 0\<close>, ..., \<open>control n\<close> of a route of
  \<open>n\<close> segments have all written their state, and the read sees the latest of them.
\<close>

definition latest_write :: "Environment \<Rightarrow> nat \<Rightarrow> ExecutionData \<Rightarrow> ExecutionData" where
  "latest_write env n d = foldl (\<lambda>d' idx. observe env idx d') d [0..<Suc n]"

definition execute_parallel :: "Environment \<Rightarrow> Simulator \<Rightarrow> RouteSegment list \<Rightarrow> real
    \<Rightarrow> RouteExecutionResponse" where
  "execute_parallel env sim route_segments amount =
     build_response
       (latest_write env (length route_segments)
          (parallel_loop env (group_parallel_segments route_segments)
             (initial_data sim route_segments amount)))
       amount"

subsection \<open>Example runs\<close>

definition quiet :: Environment where
  "quiet = \<lparr>control = (\<lambda>idx. None), resumed_as = (\<lambda>idx. None),
     should_reroute = (\<lambda>idx amount. False), calculate_reroute = (\<lambda>idx amount. None),
     draws = (\<lambda>idx. example_oracle)\<rparr>"

definition three_legs :: "RouteSegment list" where
  "three_legs = [example_segment FX 0.92, example_segment FX 1, example_segment FX 1]"


definition funded_simulator :: Simulator where
  "funded_simulator = empty_simulator\<lparr>wallets := [''0xw'' \<mapsto> [''USDC'' \<mapsto> fl 0.2]]\<rparr>"

definition detour :: "RouteSegment list" where
  "detour = [example_segment BANK_RAIL 1, example_segment BANK_RAIL 1]"

definition rerouting :: Environment where
  "rerouting = quiet\<lparr>should_reroute := (\<lambda>idx amount. idx = 1),
                      calculate_reroute := (\<lambda>idx amount. Some detour)\<rparr>"

definition rerouting_reset :: Environment where
  "rerouting_reset = rerouting\<lparr>control := (\<lambda>idx. if idx = 2 then Some RUNNING else None)\<rparr>"


section \<open>Properties of the graph builder and the path search\<close>

subsection \<open>The edge list of a pair of nodes after an insertion\<close>

lemma map_of_inner_append:
  "map_of (inner_append v s nbrs) w =
     (if w = v then Some ((case map_of nbrs v of None \<Rightarrow> [] | Some segs \<Rightarrow> segs) @ [s])
      else map_of nbrs w)"
  by (induction nbrs) auto

lemma map_of_graph_append:
  "map_of (graph_append u v s adj) w =
     (if w = u then Some (inner_append v s (case map_of adj u of None \<Rightarrow> [] | Some nbrs \<Rightarrow> nbrs))
      else map_of adj w)"
  by (induction adj) auto

lemma get_segments_add_segment:
  "get_segments (add_segment g s) u v =
     (if u = from_node s \<and> v = to_node s then get_segments g u v @ [s] else get_segments g u v)"
  by (simp add: get_segments_def get_neighbors_def add_segment_def map_of_graph_append
      map_of_inner_append)

text \<open>
  Claim C2. For every segment added to the graph, both endpoint node identifiers are the
  asset alone when the segment is FX or BANK\_RAIL (the network is ignored); for every
  other segment type an endpoint is \<open>asset@network\<close> when the corresponding network field
  is present (a non-empty string), else the asset alone. Both identifiers are inserted into
  the node set and the segment is appended to the edge list between them.
\<close>

theorem add_segment_node_identity:
  "nodes (add_segment g s) = nodes g \<union> {from_node s, to_node s}
   \<and> get_segments (add_segment g s) (from_node s) (to_node s)
       = get_segments g (from_node s) (to_node s) @ [s]
   \<and> from_node s =
       (if segment_type s = FX \<or> segment_type s = BANK_RAIL then from_asset s
        else case from_network s of
               None \<Rightarrow> from_asset s
             | Some n \<Rightarrow> if n = [] then from_asset s else from_asset s @ ''@'' @ n)
   \<and> to_node s =
       (if segment_type s = FX \<or> segment_type s = BANK_RAIL then to_asset s
        else case to_network s of
               None \<Rightarrow> to_asset s
             | Some n \<Rightarrow> if n = [] then to_asset s else to_asset s @ ''@'' @ n)"
proof -
  have "nodes (add_segment g s) = nodes g \<union> {from_node s, to_node s}"
    by (auto simp: add_segment_def)
  moreover have "get_segments (add_segment g s) (from_node s) (to_node s)
       = get_segments g (from_node s) (to_node s) @ [s]"
    by (simp add: get_segments_add_segment)
  moreover have "from_node s =
       (if segment_type s = FX \<or> segment_type s = BANK_RAIL then from_asset s
        else case from_network s of
               None \<Rightarrow> from_asset s
             | Some n \<Rightarrow> if n = [] then from_asset s else from_asset s @ ''@'' @ n)"
    by (cases "from_network s") (auto simp: from_node_def)
  moreover have "to_node s =
       (if segment_type s = FX \<or> segment_type s = BANK_RAIL then to_asset s
        else case to_network s of
               None \<Rightarrow> to_asset s
             | Some n \<Rightarrow> if n = [] then to_asset s else to_asset s @ ''@'' @ n)"
    by (cases "to_network s") (auto simp: to_node_def)
  ultimately show ?thesis by blast
qed


subsection \<open>Paths returned by the search\<close>

















section \<open>Properties of the decision layer\<close>

lemma foldl_min_le: "foldl min (a::real) xs \<le> a"
proof (induction xs arbitrary: a)
  case Nil then show ?case by simp
next
  case (Cons y ys)
  have "foldl min (min a y) ys \<le> min a y" by (rule Cons.IH)
  then show ?case by simp
qed

lemma foldl_min_le_mem: "x \<in> set xs \<Longrightarrow> foldl min (a::real) xs \<le> x"
proof (induction xs arbitrary: a)
  case Nil then show ?case by simp
next
  case (Cons y ys)
  then show ?case
    using foldl_min_le[of "min a y" ys] by (auto intro: order_trans)
qed

lemma foldl_max_ge: "a \<le> foldl max (a::real) xs"
proof (induction xs arbitrary: a)
  case Nil then show ?case by simp
next
  case (Cons y ys)
  have "max a y \<le> foldl max (max a y) ys" by (rule Cons.IH)
  then show ?case by simp
qed

lemma foldl_max_ge_mem: "x \<in> set xs \<Longrightarrow> x \<le> foldl max (a::real) xs"
proof (induction xs arbitrary: a)
  case Nil then show ?case by simp
next
  case (Cons y ys)
  then show ?case
    using foldl_max_ge[of "max a y" ys] by (auto intro: order_trans)
qed

lemma min_or_le: "x \<in> set xs \<Longrightarrow> min_or d xs \<le> x"
  by (cases xs) (auto simp: foldl_min_le foldl_min_le_mem)

lemma max_or_ge: "x \<in> set xs \<Longrightarrow> x \<le> max_or d xs"
  by (cases xs) (auto simp: foldl_max_ge foldl_max_ge_mem)

lemma range_of_pos: "0 < range_of xs"
  by (simp add: range_of_def)

lemma min_max_normalize_bounds:
  assumes "x \<in> set xs"
  shows "0 \<le> min_max_normalize xs x \<and> min_max_normalize xs x \<le> 1"
proof -
  have lo: "min_or 0 xs \<le> x" and hi: "x \<le> max_or 1 xs"
    using assms by (auto intro: min_or_le max_or_ge)
  show ?thesis
  proof (cases "max_or 1 xs > min_or 0 xs")
    case True
    then have r: "range_of xs = max_or 1 xs - min_or 0 xs" by (simp add: range_of_def)
    with True lo hi show ?thesis by (simp add: min_max_normalize_def)
  next
    case False
    with lo hi have "x = min_or 0 xs" by simp
    then show ?thesis by (simp add: min_max_normalize_def)
  qed
qed

lemma min_max_normalize_degenerate:
  assumes "x \<in> set xs" "max_or 1 xs = min_or 0 xs"
  shows "min_max_normalize xs x = 0"
proof -
  have "min_or 0 xs \<le> x" "x \<le> max_or 1 xs"
    using assms(1) by (auto intro: min_or_le max_or_ge)
  with assms(2) show ?thesis by (simp add: min_max_normalize_def)
qed

lemma argmin_scan_spec:
  assumes "best_i < i" "length pre = i" "pre ! best_i = best" "\<forall>y\<in>set pre. best \<le> y"
  shows "argmin_scan best_i best i xs < i + length xs
         \<and> (\<forall>y\<in>set (pre @ xs). (pre @ xs) ! argmin_scan best_i best i xs \<le> y)"
  using assms
proof (induction xs arbitrary: best_i best i pre)
  case Nil
  then show ?case by simp
next
  case (Cons x xs)
  show ?case
  proof (cases "x < best")
    case True
    have "argmin_scan i x (Suc i) xs < Suc i + length xs
         \<and> (\<forall>y\<in>set ((pre @ [x]) @ xs). ((pre @ [x]) @ xs) ! argmin_scan i x (Suc i) xs \<le> y)"
      using Cons.prems True by (intro Cons.IH) (auto simp: nth_append)
    with True show ?thesis by simp
  next
    case False
    have "argmin_scan best_i best (Suc i) xs < Suc i + length xs
         \<and> (\<forall>y\<in>set ((pre @ [x]) @ xs). ((pre @ [x]) @ xs) ! argmin_scan best_i best (Suc i) xs \<le> y)"
      using Cons.prems False by (intro Cons.IH) (auto simp: nth_append)
    with False show ?thesis by simp
  qed
qed

lemma argmin_spec:
  assumes "xs \<noteq> []"
  shows "argmin xs < length xs \<and> (\<forall>y\<in>set xs. xs ! argmin xs \<le> y)"
proof -
  obtain x rest where xs: "xs = x # rest" using assms by (cases xs) auto
  have "argmin_scan 0 x 1 rest < 1 + length rest
         \<and> (\<forall>y\<in>set ([x] @ rest). ([x] @ rest) ! argmin_scan 0 x 1 rest \<le> y)"
    by (rule argmin_scan_spec) auto
  then show ?thesis by (simp add: xs)
qed

lemma nth_normalized_routes:
  "i < length cs \<Longrightarrow> normalized_routes w cs ! i = (fst (cs ! i), snd (cs ! i), route_score w cs (snd (cs ! i)))"
  by (simp add: normalized_routes_def split_beta)

lemma scores_normalized_routes:
  "map (\<lambda>(path, metrics, score). score) (normalized_routes w cs) = map (\<lambda>c. route_score w cs (snd c)) cs"
  by (simp add: normalized_routes_def split_beta)


lemma mem_costs_of: "c \<in> set cs \<Longrightarrow> total_cost (snd c) \<in> set (costs_of cs)"
  by (force simp: costs_of_def split_beta)

lemma mem_latencies_of: "c \<in> set cs \<Longrightarrow> total_latency (snd c) \<in> set (latencies_of cs)"
  by (force simp: latencies_of_def split_beta)

lemma mem_reliabilities_of: "c \<in> set cs \<Longrightarrow> reliability (snd c) \<in> set (reliabilities_of cs)"
  by (force simp: reliabilities_of_def split_beta)

lemma min_or_const:
  assumes "xs \<noteq> []" "\<forall>x\<in>set xs. x = k"
  shows "min_or d xs = k" "max_or d' xs = k"
proof -
  obtain x rest where xs: "xs = x # rest" using assms(1) by (cases xs) auto
  have x: "x = k" and rest: "\<forall>y\<in>set rest. y = k" using assms(2) xs by auto
  have "foldl min k rest = k" using rest by (induction rest) auto
  then show "min_or d xs = k" by (simp add: xs x)
  have "foldl max k rest = k" using rest by (induction rest) auto
  then show "max_or d' xs = k" by (simp add: xs x)
qed

lemma min_max_normalize_const:
  assumes "xs \<noteq> []" "\<forall>x\<in>set xs. x = k"
  shows "min_max_normalize xs k = 0"
  using min_or_const[OF assms] by (simp add: min_max_normalize_def)

lemma route_score_identical:
  assumes "c \<in> set cs"
      and "\<forall>c'\<in>set cs. total_cost (snd c') = total_cost (snd c)
             \<and> total_latency (snd c') = total_latency (snd c)
             \<and> reliability (snd c') = reliability (snd c)"
  shows "route_score w cs (snd c) = gamma w"
proof -
  have ne: "costs_of cs \<noteq> []" "latencies_of cs \<noteq> []" "reliabilities_of cs \<noteq> []"
    using assms(1) by (auto simp: costs_of_def latencies_of_def reliabilities_of_def)
  have "\<forall>x\<in>set (costs_of cs). x = total_cost (snd c)"
    using assms(2) by (auto simp: costs_of_def split_beta)
  then have c0: "min_max_normalize (costs_of cs) (total_cost (snd c)) = 0"
    using ne(1) by (rule min_max_normalize_const[rotated])
  have "\<forall>x\<in>set (latencies_of cs). x = total_latency (snd c)"
    using assms(2) by (auto simp: latencies_of_def split_beta)
  then have l0: "min_max_normalize (latencies_of cs) (total_latency (snd c)) = 0"
    using ne(2) by (rule min_max_normalize_const[rotated])
  have "\<forall>x\<in>set (reliabilities_of cs). x = reliability (snd c)"
    using assms(2) by (auto simp: reliabilities_of_def split_beta)
  then have r0: "min_max_normalize (reliabilities_of cs) (reliability (snd c)) = 0"
    using ne(3) by (rule min_max_normalize_const[rotated])
  show ?thesis by (simp add: route_score_def c0 l0 r0)
qed

lemma select_optimal_route_least:
  assumes "candidate_routes \<noteq> []"
  shows "\<exists>path metrics.
           select_optimal_route w candidate_routes
             = Some (path, metrics, route_score w candidate_routes metrics)
           \<and> (path, metrics) \<in> set candidate_routes
           \<and> (\<forall>c\<in>set candidate_routes.
                 route_score w candidate_routes metrics \<le> route_score w candidate_routes (snd c))"
proof -
  let ?scores = "map (\<lambda>c. route_score w candidate_routes (snd c)) candidate_routes"
  let ?i = "argmin ?scores"
  have ne: "?scores \<noteq> []" using assms by simp
  from argmin_spec[OF ne] have i: "?i < length candidate_routes" by simp
  from argmin_spec[OF ne] have least: "\<forall>y\<in>set ?scores. ?scores ! ?i \<le> y" by blast
  have sel: "select_optimal_route w candidate_routes
      = Some (fst (candidate_routes ! ?i), snd (candidate_routes ! ?i),
              route_score w candidate_routes (snd (candidate_routes ! ?i)))"
    using assms i
    by (simp add: select_optimal_route_def Let_def scores_normalized_routes nth_normalized_routes)
  have mem: "(fst (candidate_routes ! ?i), snd (candidate_routes ! ?i)) \<in> set candidate_routes"
    using i by simp
  have "\<forall>c\<in>set candidate_routes.
          route_score w candidate_routes (snd (candidate_routes ! ?i))
            \<le> route_score w candidate_routes (snd c)"
    using least i by (simp del: argmin.simps)
  with sel mem show ?thesis by blast
qed

lemma two_candidates_metrics:
  "calculate_path_metrics unit_weights [fx_leg 1 0] = Inr metrics_a"
  "calculate_path_metrics unit_weights [fx_leg (9/10) 2000] = Inr metrics_b"
  by (simp_all add: calculate_path_metrics_def Let_def fx_leg_def metrics_a_def metrics_b_def
      unit_weights_def)

text \<open>
  Claim C4, as stated, has the cost term normalize \<open>total_cost_percent\<close>. The source reads
  the key \<open>total_cost\<close>, which \<open>_calculate_path_metrics\<close> sets to
  \<open>total_cost_percent + total_fixed_fee * 0.0001\<close>. For two candidates that differ in
  their fixed fee the selected route is not the one with the least score of the claim.
\<close>

theorem select_optimal_route_not_cost_percent:
  "select_optimal_route default_weights two_candidates = Some ([fx_leg 1 0], metrics_a, 3/10)
   \<and> spec_route_score default_weights two_candidates metrics_b
       < spec_route_score default_weights two_candidates metrics_a"
  by (simp add: select_optimal_route_def normalized_routes_def route_score_def
      spec_route_score_def costs_of_def latencies_of_def reliabilities_of_def
      min_max_normalize_def range_of_def two_candidates_def metrics_a_def metrics_b_def
      default_weights_def)

text \<open>
  Claim C4, amended. Given one or more candidates, \<open>select_optimal_route\<close> returns a
  candidate of the list with the least score, where the score min-max normalizes
  \<open>total_cost\<close> (cost percent plus 0.0001 times the fixed fee), \<open>total_latency\<close> and
  \<open>reliability\<close> across the candidate set, inverts the reliability term and weights the
  three terms by alpha, beta and gamma. Every divisor is positive, every normalized value
  of a candidate lies in [0, 1], a degenerate range (max equal to min) gives the normalized
  value 0, and when all candidates share identical metrics every score equals gamma.
\<close>

theorem select_optimal_route_argmin:
  assumes "candidate_routes \<noteq> []"
  shows "(\<exists>path metrics.
           select_optimal_route w candidate_routes
             = Some (path, metrics, route_score w candidate_routes metrics)
           \<and> (path, metrics) \<in> set candidate_routes
           \<and> (\<forall>c\<in>set candidate_routes.
                 route_score w candidate_routes metrics \<le> route_score w candidate_routes (snd c)))
    \<and> (\<forall>m. route_score w candidate_routes m =
           alpha w * min_max_normalize (costs_of candidate_routes) (total_cost m)
           + beta w * min_max_normalize (latencies_of candidate_routes) (total_latency m)
           + gamma w * (1 - min_max_normalize (reliabilities_of candidate_routes) (reliability m)))
    \<and> (\<forall>xs x. min_max_normalize xs x = (x - min_or 0 xs) / range_of xs \<and> 0 < range_of xs)
    \<and> (\<forall>xs. \<forall>x\<in>set xs. 0 \<le> min_max_normalize xs x \<and> min_max_normalize xs x \<le> 1
              \<and> (max_or 1 xs = min_or 0 xs \<longrightarrow> min_max_normalize xs x = 0))
    \<and> ((\<forall>c\<in>set candidate_routes. \<forall>c'\<in>set candidate_routes.
            total_cost (snd c') = total_cost (snd c)
            \<and> total_latency (snd c') = total_latency (snd c)
            \<and> reliability (snd c') = reliability (snd c))
        \<longrightarrow> (\<forall>c\<in>set candidate_routes. route_score w candidate_routes (snd c) = gamma w))"
proof -
  have "\<forall>m. route_score w candidate_routes m =
           alpha w * min_max_normalize (costs_of candidate_routes) (total_cost m)
           + beta w * min_max_normalize (latencies_of candidate_routes) (total_latency m)
           + gamma w * (1 - min_max_normalize (reliabilities_of candidate_routes) (reliability m))"
    by (simp add: route_score_def)
  moreover have "\<forall>xs x. min_max_normalize xs x = (x - min_or 0 xs) / range_of xs \<and> 0 < range_of xs"
    by (simp add: min_max_normalize_def range_of_pos)
  moreover have "\<forall>xs. \<forall>x\<in>set xs. 0 \<le> min_max_normalize xs x \<and> min_max_normalize xs x \<le> 1
              \<and> (max_or 1 xs = min_or 0 xs \<longrightarrow> min_max_normalize xs x = 0)"
    using min_max_normalize_bounds min_max_normalize_degenerate by blast
  moreover have "(\<forall>c\<in>set candidate_routes. \<forall>c'\<in>set candidate_routes.
            total_cost (snd c') = total_cost (snd c)
            \<and> total_latency (snd c') = total_latency (snd c)
            \<and> reliability (snd c') = reliability (snd c))
        \<longrightarrow> (\<forall>c\<in>set candidate_routes. route_score w candidate_routes (snd c) = gamma w)"
    using route_score_identical by blast
  ultimately show ?thesis
    using select_optimal_route_least[OF assms, of w] by blast
qed

theorem select_optimal_route_argmin_witness:
  "two_candidates \<noteq> []
   \<and> select_optimal_route default_weights two_candidates = Some ([fx_leg 1 0], metrics_a, 3/10)
   \<and> route_score default_weights two_candidates metrics_a
        \<le> route_score default_weights two_candidates metrics_b
   \<and> 0 < range_of (costs_of two_candidates)"
proof -
  have ne: "two_candidates \<noteq> []" by (simp add: two_candidates_def)
  have sel: "select_optimal_route default_weights two_candidates
               = Some ([fx_leg 1 0], metrics_a, 3/10)"
    by (simp add: select_optimal_route_def normalized_routes_def route_score_def
      costs_of_def latencies_of_def reliabilities_of_def
      min_max_normalize_def range_of_def two_candidates_def metrics_a_def metrics_b_def
      default_weights_def)
  from select_optimal_route_argmin[OF ne, of default_weights]
  have "(\<forall>c\<in>set two_candidates.
           route_score default_weights two_candidates metrics_a
             \<le> route_score default_weights two_candidates (snd c))
        \<and> 0 < range_of (costs_of two_candidates)"
    unfolding sel by auto
  then show ?thesis using ne sel by (simp add: two_candidates_def)
qed

section \<open>Properties of the simulator and the segment executors\<close>

lemma debit_and_confirm_succeeds:
  "\<exists>tx_hash minutes sim'.
     debit_and_confirm orc sim ty segment w amount dmin dmax = Inr ((tx_hash, minutes), sim')"
proof -
  have "\<forall>e. debit_and_confirm orc sim ty segment w amount dmin dmax \<noteq> Inl e"
    by (simp add: debit_and_confirm_def Let_def split_beta create_transaction_def
        simulate_confirmation_def py_randint_def)
  then obtain x where x: "debit_and_confirm orc sim ty segment w amount dmin dmax = Inr x"
    by (cases "debit_and_confirm orc sim ty segment w amount dmin dmax") auto
  obtain tx_hash minutes sim' where "x = ((tx_hash, minutes), sim')"
    by (cases x) auto
  with x show ?thesis by blast
qed

lemma validated_amounts_ok:
  assumes "cost_get (fee_percent c) 0 = Inr fp"
      and "cost_get (fixed_fee c) 0 = Inr ff"
      and "cost_get (effective_fx_rate c) 1 = Inr rate"
      and "0 \<le> amount" "0 < rate"
  shows "validated_amounts c amount =
           Inr (amount * max 0 (min 100 fp) / 100 + max 0 ff,
                max 0 (amount - (amount * max 0 (min 100 fp) / 100 + max 0 ff)) * rate)"
  using assms by (simp add: validated_amounts_def Let_def)

lemma validated_amounts_rejects:
  assumes "cost_get (fee_percent c) 0 = Inr fp"
      and "cost_get (fixed_fee c) 0 = Inr ff"
      and "cost_get (effective_fx_rate c) 1 = Inr rate"
      and "rate \<le> 0 \<or> amount < 0"
  shows "\<exists>e. validated_amounts c amount = Inl e"
  using assms by (auto simp: validated_amounts_def Let_def)

lemma bridge_amounts_ok:
  assumes "cost_get (fee_percent c) 0 = Inr fp"
      and "cost_get (fixed_fee c) 0 = Inr ff"
      and "0 \<le> amount"
  shows "bridge_amounts c amount =
           Inr (amount * max 0 (min 100 fp) / 100 + max 0 ff,
                max 0 (amount - (amount * max 0 (min 100 fp) / 100 + max 0 ff)))"
  using assms by (simp add: bridge_amounts_def Let_def)

lemma fx_amounts_ok:
  assumes "cost_get (fee_percent c) 0 = Inr fp"
      and "cost_get (fixed_fee c) 0 = Inr ff"
      and "cost_get (effective_fx_rate c) 1 = Inr rate"
  shows "fx_amounts c amount =
           Inr (amount * fp / 100 + ff, (amount - (amount * fp / 100 + ff)) * rate)"
  using assms by (simp add: fx_amounts_def Let_def)

lemma failed_result_fields [simp]:
  "status (failed_result idx segment amount e) = SEG_FAILED"
  "fees_paid (failed_result idx segment amount e) = 0"
  "output_amount (failed_result idx segment amount e) = 0"
  "error_message (failed_result idx segment amount e) = Some e"
  by (simp_all add: failed_result_def)

lemma completed_result_fields [simp]:
  "status (completed_result idx segment amount output fees tx minutes w) = SEG_COMPLETED"
  "fees_paid (completed_result idx segment amount output fees tx minutes w) = fees"
  "output_amount (completed_result idx segment amount output fees tx minutes w) = output"
  "error_message (completed_result idx segment amount output fees tx minutes w) = None"
  by (simp_all add: completed_result_def)

lemma CryptoExecutor_completed:
  assumes "validated_amounts (cost segment) amount = Inr (fees, output)"
  shows "status (fst (CryptoExecutor orc sim segment amount wallet idx)) = SEG_COMPLETED
       \<and> fees_paid (fst (CryptoExecutor orc sim segment amount wallet idx)) = fees
       \<and> output_amount (fst (CryptoExecutor orc sim segment amount wallet idx)) = output"
proof -
  obtain w sim1 where ow: "obtain_wallet orc sim wallet = (w, sim1)"
    by (cases "obtain_wallet orc sim wallet")
  obtain tx m sim3 where
    "debit_and_confirm orc (ensure_balance sim1 w (from_asset segment) amount)
       ''swap'' segment w amount 2 5 = Inr ((tx, m), sim3)"
    using debit_and_confirm_succeeds by blast
  then show ?thesis
    using assms by (simp add: CryptoExecutor_def ow Let_def)
qed

lemma CryptoExecutor_failed:
  assumes "validated_amounts (cost segment) amount = Inl e"
  shows "fst (CryptoExecutor orc sim segment amount wallet idx) = failed_result idx segment amount e"
  using assms by (simp add: CryptoExecutor_def Let_def split_beta)

lemma BridgeExecutor_completed:
  assumes "bridge_amounts (cost segment) amount = Inr (fees, output)"
  shows "status (fst (BridgeExecutor orc sim segment amount wallet idx)) = SEG_COMPLETED
       \<and> fees_paid (fst (BridgeExecutor orc sim segment amount wallet idx)) = fees
       \<and> output_amount (fst (BridgeExecutor orc sim segment amount wallet idx)) = output"
proof -
  obtain w sim1 where ow: "obtain_wallet orc sim wallet = (w, sim1)"
    by (cases "obtain_wallet orc sim wallet")
  obtain tx m sim3 where
    "debit_and_confirm orc (ensure_balance sim1 w (from_asset segment) amount)
       ''bridge'' segment w amount 5 15 = Inr ((tx, m), sim3)"
    using debit_and_confirm_succeeds by blast
  then show ?thesis
    using assms by (simp add: BridgeExecutor_def ow Let_def)
qed

lemma BridgeExecutor_failed:
  assumes "bridge_amounts (cost segment) amount = Inl e"
  shows "fst (BridgeExecutor orc sim segment amount wallet idx) = failed_result idx segment amount e"
  using assms by (simp add: BridgeExecutor_def Let_def split_beta)

lemma RampExecutor_completed:
  assumes "validated_amounts (cost segment) amount = Inr (fees, output)"
  shows "status (fst (RampExecutor orc sim segment amount wallet idx)) = SEG_COMPLETED
       \<and> fees_paid (fst (RampExecutor orc sim segment amount wallet idx)) = fees
       \<and> output_amount (fst (RampExecutor orc sim segment amount wallet idx)) = output"
proof (cases "segment_type segment = ON_RAMP")
  case True
  then show ?thesis
    using assms by (simp add: RampExecutor_def Let_def split_beta)
next
  case False
  obtain w sim1 where ow: "obtain_wallet orc sim wallet = (w, sim1)"
    by (cases "obtain_wallet orc sim wallet")
  obtain tx m sim3 where
    "debit_and_confirm orc (ensure_balance sim1 w (from_asset segment) amount)
       ''off_ramp'' segment w amount 5 15 = Inr ((tx, m), sim3)"
    using debit_and_confirm_succeeds by blast
  then show ?thesis
    using assms False by (simp add: RampExecutor_def ow Let_def)
qed

lemma RampExecutor_failed:
  assumes "validated_amounts (cost segment) amount = Inl e"
  shows "fst (RampExecutor orc sim segment amount wallet idx) = failed_result idx segment amount e"
  using assms by (simp add: RampExecutor_def Let_def split_beta)

lemma BankRailExecutor_completed:
  assumes "validated_amounts (cost segment) amount = Inr (fees, output)"
  shows "status (fst (BankRailExecutor orc sim segment amount wallet idx)) = SEG_COMPLETED
       \<and> fees_paid (fst (BankRailExecutor orc sim segment amount wallet idx)) = fees
       \<and> output_amount (fst (BankRailExecutor orc sim segment amount wallet idx)) = output"
  using assms by (simp add: BankRailExecutor_def Let_def)

lemma BankRailExecutor_failed:
  assumes "validated_amounts (cost segment) amount = Inl e"
  shows "fst (BankRailExecutor orc sim segment amount wallet idx) = failed_result idx segment amount e"
  using assms by (simp add: BankRailExecutor_def)

lemma FXExecutor_completed:
  assumes "fx_amounts (cost segment) amount = Inr (fees, output)"
      and "latency_get (min_minutes (latency segment)) 5 \<le> latency_get (max_minutes (latency segment)) 10"
  shows "status (fst (FXExecutor orc sim segment amount wallet idx)) = SEG_COMPLETED
       \<and> fees_paid (fst (FXExecutor orc sim segment amount wallet idx)) = fees
       \<and> output_amount (fst (FXExecutor orc sim segment amount wallet idx)) = output"
  using assms by (simp add: FXExecutor_def simulate_fx_conversion_def py_randint_def)

lemma validated_executor_completed:
  assumes "segment_type segment \<in> {CRYPTO, ON_RAMP, OFF_RAMP, BANK_RAIL}"
      and "executors (segment_type segment) = Some ex"
      and "validated_amounts (cost segment) amount = Inr (fees, output)"
  shows "status (fst (ex orc sim segment amount wallet idx)) = SEG_COMPLETED
       \<and> fees_paid (fst (ex orc sim segment amount wallet idx)) = fees
       \<and> output_amount (fst (ex orc sim segment amount wallet idx)) = output"
  using assms CryptoExecutor_completed RampExecutor_completed BankRailExecutor_completed
  by (cases "segment_type segment") auto

lemma validated_executor_failed:
  assumes "segment_type segment \<in> {CRYPTO, ON_RAMP, OFF_RAMP, BANK_RAIL}"
      and "executors (segment_type segment) = Some ex"
      and "validated_amounts (cost segment) amount = Inl e"
  shows "fst (ex orc sim segment amount wallet idx) = failed_result idx segment amount e"
  using assms CryptoExecutor_failed RampExecutor_failed BankRailExecutor_failed
  by (cases "segment_type segment") auto

text \<open>
  Claim C1, as stated, covers every segment type. The bridge executor does not apply the
  rate (the asset is the same on both networks): at the inputs of the worked example it
  returns 999, not 919.08.
\<close>

theorem bridge_ignores_rate:
  "status (fst (BridgeExecutor example_oracle empty_simulator
                  (example_segment BRIDGE (92/100)) 1000 None 0)) = SEG_COMPLETED
   \<and> fees_paid (fst (BridgeExecutor example_oracle empty_simulator
                  (example_segment BRIDGE (92/100)) 1000 None 0)) = 1
   \<and> output_amount (fst (BridgeExecutor example_oracle empty_simulator
                  (example_segment BRIDGE (92/100)) 1000 None 0)) = 999
   \<and> output_amount (fst (BridgeExecutor example_oracle empty_simulator
                  (example_segment BRIDGE (92/100)) 1000 None 0)) \<noteq> max 0 (1000 - 1) * (92/100)"
proof -
  have "bridge_amounts (cost (example_segment BRIDGE (92/100))) 1000 = Inr (1, 999)"
    by (simp add: bridge_amounts_def example_segment_def example_cost_def)
  from BridgeExecutor_completed[OF this] show ?thesis by simp
qed

text \<open>
  Claim C1, amended. In simulation mode, for a segment whose fee and rate entries are
  numbers, with non-negative input amount and positive effective rate, and with
  \<open>fees = input * clamp(fee_percent, 0, 100) / 100 + max(fixed_fee, 0)\<close>:
  the CRYPTO, ON\_RAMP, OFF\_RAMP and BANK\_RAIL executors complete with these fees and
  output \<open>max(0, input - fees) * rate\<close>; the BRIDGE executor completes with these fees and
  output \<open>max(0, input - fees)\<close>, the rate not being applied; the FX executor gives the
  first law whenever the fee percentage is within [0, 100], the fixed fee is non-negative,
  the fees do not exceed the input and the latency window is not empty. In particular,
  for input 1000, fee percent 0.1, fixed fee 0 and rate 0.92 the FX and CRYPTO executors
  return fees 1.0 and output 919.08.
\<close>

theorem executor_fee_law:
  assumes "cost_get (fee_percent (cost segment)) 0 = Inr fp"
      and "cost_get (fixed_fee (cost segment)) 0 = Inr ff"
      and "cost_get (effective_fx_rate (cost segment)) 1 = Inr rate"
      and "0 \<le> amount" and "0 < rate"
      and "fees = amount * max 0 (min 100 fp) / 100 + max 0 ff"
      and "executors (segment_type segment) = Some ex"
      and "r = fst (ex orc sim segment amount wallet idx)"
  shows "(segment_type segment \<in> {CRYPTO, ON_RAMP, OFF_RAMP, BANK_RAIL} \<longrightarrow>
            status r = SEG_COMPLETED \<and> fees_paid r = fees
            \<and> output_amount r = max 0 (amount - fees) * rate)
       \<and> (segment_type segment = BRIDGE \<longrightarrow>
            status r = SEG_COMPLETED \<and> fees_paid r = fees
            \<and> output_amount r = max 0 (amount - fees))
       \<and> (segment_type segment = FX \<and> 0 \<le> fp \<and> fp \<le> 100 \<and> 0 \<le> ff \<and> fees \<le> amount
            \<and> latency_get (min_minutes (latency segment)) 5
                 \<le> latency_get (max_minutes (latency segment)) 10 \<longrightarrow>
            status r = SEG_COMPLETED \<and> fees_paid r = fees
            \<and> output_amount r = max 0 (amount - fees) * rate)"
proof (intro conjI impI)
  assume ty: "segment_type segment \<in> {CRYPTO, ON_RAMP, OFF_RAMP, BANK_RAIL}"
  have "validated_amounts (cost segment) amount = Inr (fees, max 0 (amount - fees) * rate)"
    using validated_amounts_ok[OF assms(1-5)] assms(6) by simp
  from validated_executor_completed[OF ty assms(7) this]
  show "status r = SEG_COMPLETED" "fees_paid r = fees"
       "output_amount r = max 0 (amount - fees) * rate"
    using assms(8) by simp_all
next
  assume ty: "segment_type segment = BRIDGE"
  have ex: "ex = BridgeExecutor" using assms(7) ty by simp
  have "bridge_amounts (cost segment) amount = Inr (fees, max 0 (amount - fees))"
    using bridge_amounts_ok[OF assms(1,2,4)] assms(6) by simp
  from BridgeExecutor_completed[OF this]
  show "status r = SEG_COMPLETED" "fees_paid r = fees" "output_amount r = max 0 (amount - fees)"
    using assms(8) ex by simp_all
next
  assume h: "segment_type segment = FX \<and> 0 \<le> fp \<and> fp \<le> 100 \<and> 0 \<le> ff \<and> fees \<le> amount
            \<and> latency_get (min_minutes (latency segment)) 5
                 \<le> latency_get (max_minutes (latency segment)) 10"
  have ex: "ex = FXExecutor" using assms(7) h by simp
  have f: "fees = amount * fp / 100 + ff" using assms(6) h by simp
  have "fx_amounts (cost segment) amount = Inr (fees, max 0 (amount - fees) * rate)"
    using fx_amounts_ok[OF assms(1-3)] f h by simp
  from FXExecutor_completed[OF this] h
  show "status r = SEG_COMPLETED" "fees_paid r = fees"
       "output_amount r = max 0 (amount - fees) * rate"
    using assms(8) ex by simp_all
qed

theorem executor_fee_law_witness:
  "(let r = fst (CryptoExecutor example_oracle empty_simulator
                   (example_segment CRYPTO 0.92) 1000 None 0)
    in status r = SEG_COMPLETED \<and> fees_paid r = 1.0 \<and> output_amount r = 919.08)
   \<and> (let r = fst (FXExecutor example_oracle empty_simulator
                   (example_segment FX 0.92) 1000 None 0)
    in status r = SEG_COMPLETED \<and> fees_paid r = 1.0 \<and> output_amount r = 919.08)
   \<and> (let r = fst (BridgeExecutor example_oracle empty_simulator
                   (example_segment BRIDGE 0.92) 1000 None 0)
    in status r = SEG_COMPLETED \<and> fees_paid r = 1.0 \<and> output_amount r = 999)"
proof -
  have c: "cost_get (fee_percent (cost (example_segment ty 0.92))) 0 = Inr 0.1"
          "cost_get (fixed_fee (cost (example_segment ty 0.92))) 0 = Inr 0"
          "cost_get (effective_fx_rate (cost (example_segment ty 0.92))) 1 = Inr 0.92" for ty
    by (simp_all add: example_segment_def example_cost_def)
  have f: "(1::real) = 1000 * max 0 (min 100 0.1) / 100 + max 0 0" by simp
  have l: "latency_get (min_minutes (latency (example_segment FX 0.92))) 5
             \<le> latency_get (max_minutes (latency (example_segment FX 0.92))) 10"
    by (simp add: example_segment_def)
  have t [simp]: "segment_type (example_segment ty rate) = ty" for ty rate
    by (simp add: example_segment_def)
  have "executors (segment_type (example_segment CRYPTO 0.92)) = Some CryptoExecutor"
    by simp
  from executor_fee_law[OF c(1) c(2) c(3) _ _ f this refl, of example_oracle empty_simulator None 0]
  have 1: "let r = fst (CryptoExecutor example_oracle empty_simulator
                   (example_segment CRYPTO 0.92) 1000 None 0)
    in status r = SEG_COMPLETED \<and> fees_paid r = 1.0 \<and> output_amount r = 919.08"
    by simp
  have "executors (segment_type (example_segment FX 0.92)) = Some FXExecutor"
    by simp
  from executor_fee_law[OF c(1) c(2) c(3) _ _ f this refl, of example_oracle empty_simulator None 0] l
  have 2: "let r = fst (FXExecutor example_oracle empty_simulator
                   (example_segment FX 0.92) 1000 None 0)
    in status r = SEG_COMPLETED \<and> fees_paid r = 1.0 \<and> output_amount r = 919.08"
    by simp
  have "executors (segment_type (example_segment BRIDGE 0.92)) = Some BridgeExecutor"
    by simp
  from executor_fee_law[OF c(1) c(2) c(3) _ _ f this refl, of example_oracle empty_simulator None 0]
  have 3: "let r = fst (BridgeExecutor example_oracle empty_simulator
                   (example_segment BRIDGE 0.92) 1000 None 0)
    in status r = SEG_COMPLETED \<and> fees_paid r = 1.0 \<and> output_amount r = 999"
    by simp
  from 1 2 3 show ?thesis by blast
qed

lemma validating_executors_reject:
  assumes "segment_type segment \<in> {CRYPTO, ON_RAMP, OFF_RAMP, BANK_RAIL}"
      and "executors (segment_type segment) = Some ex"
      and "cost_get (fee_percent (cost segment)) 0 = Inr fp"
      and "cost_get (fixed_fee (cost segment)) 0 = Inr ff"
      and "cost_get (effective_fx_rate (cost segment)) 1 = Inr rate"
      and "rate \<le> 0 \<or> amount < 0"
  shows "status (fst (ex orc sim segment amount wallet idx)) = SEG_FAILED"
proof -
  from validated_amounts_rejects[OF assms(3-6)]
  obtain e where "validated_amounts (cost segment) amount = Inl e" ..
  from validated_executor_failed[OF assms(1,2) this] show ?thesis by simp
qed

lemma bridge_rejects_negative_amount:
  assumes "cost_get (fee_percent (cost segment)) 0 = Inr fp"
      and "cost_get (fixed_fee (cost segment)) 0 = Inr ff"
      and "amount < 0"
  shows "status (fst (BridgeExecutor orc sim segment amount wallet idx)) = SEG_FAILED"
proof -
  have "bridge_amounts (cost segment) amount = Inl (ValueError ''Invalid input amount'')"
    using assms by (simp add: bridge_amounts_def)
  from BridgeExecutor_failed[OF this] show ?thesis by simp
qed

text \<open>
  Claim C7 at an FX segment. The FX executor has no validation block: a segment with rate
  \<open>-1\<close>, and an input of \<open>-100\<close>, are both executed to completion with a negative output,
  where the crypto, ramp and bank-rail executors return a failed result
  (\<open>validating_executors_reject\<close>).
\<close>

theorem FXExecutor_accepts_invalid:
  "status (fst (FXExecutor orc sim (example_segment FX (-1)) 1000 wallet idx)) = SEG_COMPLETED
   \<and> output_amount (fst (FXExecutor orc sim (example_segment FX (-1)) 1000 wallet idx)) = -999
   \<and> status (fst (FXExecutor orc sim (example_segment FX 0.92) (-100) wallet idx)) = SEG_COMPLETED
   \<and> output_amount (fst (FXExecutor orc sim (example_segment FX 0.92) (-100) wallet idx)) = -91.908
   \<and> status (fst (CryptoExecutor orc sim (example_segment CRYPTO (-1)) 1000 wallet idx)) = SEG_FAILED
   \<and> status (fst (CryptoExecutor orc sim (example_segment CRYPTO 0.92) (-100) wallet idx)) = SEG_FAILED"
proof -
  have l: "latency_get (min_minutes (latency (example_segment FX rate))) 5
             \<le> latency_get (max_minutes (latency (example_segment FX rate))) 10" for rate
    by (simp add: example_segment_def)
  have "fx_amounts (cost (example_segment FX (-1))) 1000 = Inr (1, -999)"
    by (simp add: fx_amounts_def example_segment_def example_cost_def)
  from FXExecutor_completed[OF this l]
  have 1: "status (fst (FXExecutor orc sim (example_segment FX (-1)) 1000 wallet idx)) = SEG_COMPLETED
   \<and> output_amount (fst (FXExecutor orc sim (example_segment FX (-1)) 1000 wallet idx)) = -999"
    by simp
  have "fx_amounts (cost (example_segment FX 0.92)) (-100) = Inr (-0.1, -91.908)"
    by (simp add: fx_amounts_def example_segment_def example_cost_def)
  from FXExecutor_completed[OF this l]
  have 2: "status (fst (FXExecutor orc sim (example_segment FX 0.92) (-100) wallet idx)) = SEG_COMPLETED
   \<and> output_amount (fst (FXExecutor orc sim (example_segment FX 0.92) (-100) wallet idx)) = -91.908"
    by simp
  have "validated_amounts (cost (example_segment CRYPTO (-1))) 1000 = Inl (ValueError ''Invalid rate'')"
    by (simp add: validated_amounts_def example_segment_def example_cost_def)
  from CryptoExecutor_failed[OF this]
  have 3: "status (fst (CryptoExecutor orc sim (example_segment CRYPTO (-1)) 1000 wallet idx)) = SEG_FAILED"
    by simp
  have "validated_amounts (cost (example_segment CRYPTO 0.92)) (-100)
          = Inl (ValueError ''Invalid input amount'')"
    by (simp add: validated_amounts_def example_segment_def example_cost_def)
  from CryptoExecutor_failed[OF this]
  have 4: "status (fst (CryptoExecutor orc sim (example_segment CRYPTO 0.92) (-100) wallet idx)) = SEG_FAILED"
    by simp
  from 1 2 3 4 show ?thesis by blast
qed

subsection \<open>The top-up before the debit\<close>

lemma balance_of_wallets:
  "balance_of sim w a =
     (case wallets sim w of None \<Rightarrow> 0 | Some m \<Rightarrow> (case m a of None \<Rightarrow> 0 | Some b \<Rightarrow> b))"
  by (simp add: balance_of_def get_balance_def split: option.splits)

lemma balance_of_get_balance [simp]: "balance_of (snd (get_balance sim w' a')) w a = balance_of sim w a"
  by (simp add: balance_of_wallets get_balance_def split: option.splits)

lemma balance_of_set_balance:
  "balance_of (set_balance sim w' a' v) w a = (if w = w' \<and> a = a' then v else balance_of sim w a)"
  by (auto simp: balance_of_wallets set_balance_def Let_def split: option.splits)

lemma balance_of_add_balance:
  "balance_of (add_balance sim w' a' v) w a
     = (if w = w' \<and> a = a' then fl (balance_of sim w a + v) else balance_of sim w a)"
proof -
  have "add_balance sim w' a' v
          = set_balance (snd (get_balance sim w' a')) w' a' (fl (balance_of sim w' a' + v))"
    by (simp add: add_balance_def balance_of_def split_beta)
  then show ?thesis by (simp add: balance_of_set_balance)
qed

lemma balance_of_ensure_balance:
  "balance_of (ensure_balance sim w a x) w a
     = (if balance_of sim w a < x then fl (balance_of sim w a + fl (x - balance_of sim w a))
        else balance_of sim w a)"
proof -
  have "ensure_balance sim w a x =
          (if balance_of sim w a < x
           then add_balance (snd (get_balance sim w a)) w a (fl (x - balance_of sim w a))
           else snd (get_balance sim w a))"
    by (simp add: ensure_balance_def balance_of_def split_beta)
  then show ?thesis by (simp add: balance_of_add_balance)
qed

lemma subtract_balance_unfold:
  "subtract_balance sim w a x =
     (if balance_of sim w a \<ge> x
      then (True, set_balance (snd (get_balance sim w a)) w a (fl (balance_of sim w a - x)))
      else (False, snd (get_balance sim w a)))"
  by (simp add: subtract_balance_def balance_of_def split_beta)

lemma debit_and_confirm_wallets:
  assumes "debit_and_confirm orc sim ty segment w amount dmin dmax = Inr (r, sim')"
  shows "wallets sim' = wallets (snd (subtract_balance sim w (from_asset segment) amount))"
  using assms
  by (auto simp: debit_and_confirm_def Let_def split_beta create_transaction_def
      simulate_confirmation_def py_randint_def split: sum.splits option.splits if_splits)

lemma balance_of_cong: "wallets s = wallets s' \<Longrightarrow> balance_of s w a = balance_of s' w a"
  by (simp add: balance_of_wallets)

text \<open>
  What a completed crypto swap leaves of the source asset in the wallet: the balance after
  the top-up of \<open>ensure_balance\<close> followed by the debit of \<open>subtract_balance\<close>.
\<close>

lemma CryptoExecutor_source_balance:
  assumes "validated_amounts (cost segment) amount = Inr (fees, out)"
      and "obtain_wallet orc sim wallet = (w, sim1)"
      and "to_asset segment \<noteq> from_asset segment"
  shows "balance_of (snd (CryptoExecutor orc sim segment amount wallet idx)) w (from_asset segment)
           = balance_of (snd (subtract_balance
                                (ensure_balance sim1 w (from_asset segment) amount)
                                w (from_asset segment) amount)) w (from_asset segment)"
proof -
  let ?s2 = "ensure_balance sim1 w (from_asset segment) amount"
  obtain tx m sim3 where
    dc: "debit_and_confirm orc ?s2 ''swap'' segment w amount 2 5 = Inr ((tx, m), sim3)"
    using debit_and_confirm_succeeds by blast
  have "snd (CryptoExecutor orc sim segment amount wallet idx)
          = add_balance sim3 w (to_asset segment) out"
    using assms(1,2) dc by (simp add: CryptoExecutor_def Let_def)
  then have "balance_of (snd (CryptoExecutor orc sim segment amount wallet idx)) w
               (from_asset segment) = balance_of sim3 w (from_asset segment)"
    using assms(3) by (simp add: balance_of_add_balance)
  also have "\<dots> = balance_of (snd (subtract_balance ?s2 w (from_asset segment) amount)) w
                      (from_asset segment)"
    by (rule balance_of_cong[OF debit_and_confirm_wallets[OF dc]])
  finally show ?thesis .
qed

lemma CryptoExecutor_failed_iff:
  "(status (fst (CryptoExecutor orc sim segment amount wallet idx)) = SEG_FAILED)
     = (\<exists>e. validated_amounts (cost segment) amount = Inl e)"
proof (cases "validated_amounts (cost segment) amount")
  case (Inl e)
  from CryptoExecutor_failed[OF this] Inl show ?thesis by simp
next
  case (Inr p)
  obtain fees out where "p = (fees, out)" by (cases p)
  with Inr CryptoExecutor_completed[of segment amount fees out] show ?thesis by simp
qed

lemma BridgeExecutor_failed_iff:
  "(status (fst (BridgeExecutor orc sim segment amount wallet idx)) = SEG_FAILED)
     = (\<exists>e. bridge_amounts (cost segment) amount = Inl e)"
proof (cases "bridge_amounts (cost segment) amount")
  case (Inl e)
  from BridgeExecutor_failed[OF this] Inl show ?thesis by simp
next
  case (Inr p)
  obtain fees out where "p = (fees, out)" by (cases p)
  with Inr BridgeExecutor_completed[of segment amount fees out] show ?thesis by simp
qed

lemma RampExecutor_failed_iff:
  "(status (fst (RampExecutor orc sim segment amount wallet idx)) = SEG_FAILED)
     = (\<exists>e. validated_amounts (cost segment) amount = Inl e)"
proof (cases "validated_amounts (cost segment) amount")
  case (Inl e)
  from RampExecutor_failed[OF this] Inl show ?thesis by simp
next
  case (Inr p)
  obtain fees out where "p = (fees, out)" by (cases p)
  with Inr RampExecutor_completed[of segment amount fees out] show ?thesis by simp
qed

lemma normalise_numeral:
  "normalise (numeral k) m e =
     (if m \<ge> 2 ^ 53 then normalise (pred_numeral k) (m / 2) (e + 1)
      else if m < 2 ^ 52 then normalise (pred_numeral k) (m * 2) (e - 1)
      else (m, e))"
  by (simp add: numeral_eq_Suc)

lemma fl_two_tenths: "fl 0.2 = 3602879701896397 / 2 ^ 54"
  by (simp add: fl_def normalise_numeral round_half_even_def Let_def)

lemma fl_nine_tenths: "fl 0.9 = 8106479329266893 / 2 ^ 53"
  by (simp add: fl_def normalise_numeral round_half_even_def Let_def)

lemma fl_topped_up: "fl (fl 0.2 + fl (fl 0.9 - fl 0.2)) = 8106479329266892 / 2 ^ 53"
  unfolding fl_two_tenths fl_nine_tenths
  by (simp add: fl_def normalise_numeral round_half_even_def Let_def)

text \<open>
  Claim C10 at a crypto segment with input 0.9 and a wallet that holds 0.2 of the source
  asset (the doubles written \<open>0.9\<close> and \<open>0.2\<close>). The top-up adds the rounded difference with
  a second rounding and ends one unit in the last place below the input,
  0.8999999999999999. The subtraction that follows therefore returns \<open>False\<close> and leaves
  the wallet as it is; the executor discards that result, credits the output and reports
  the segment completed. So the segment does not fail for lack of funds, but the
  subtraction does not always succeed: the wallet is not debited.
\<close>

theorem top_up_rounds_below_input:
  "balance_of funded_simulator ''0xw'' ''USDC'' = fl 0.2
   \<and> balance_of (ensure_balance funded_simulator ''0xw'' ''USDC'' (fl 0.9)) ''0xw'' ''USDC''
        = 8106479329266892 / 2 ^ 53
   \<and> fl 0.9 = 8106479329266893 / 2 ^ 53
   \<and> \<not> fst (subtract_balance (ensure_balance funded_simulator ''0xw'' ''USDC'' (fl 0.9))
               ''0xw'' ''USDC'' (fl 0.9))
   \<and> status (fst (CryptoExecutor example_oracle funded_simulator
                     (example_segment CRYPTO 0.92) (fl 0.9) (Some ''0xw'') 0)) = SEG_COMPLETED
   \<and> balance_of (snd (CryptoExecutor example_oracle funded_simulator
                         (example_segment CRYPTO 0.92) (fl 0.9) (Some ''0xw'') 0))
        ''0xw'' ''USDC'' = 8106479329266892 / 2 ^ 53"
proof -
  let ?seg = "example_segment CRYPTO 0.92"
  let ?top = "ensure_balance funded_simulator ''0xw'' ''USDC'' (fl 0.9)"
  have b0: "balance_of funded_simulator ''0xw'' ''USDC'' = fl 0.2"
    by (simp add: balance_of_wallets funded_simulator_def empty_simulator_def)
  have lt: "fl 0.2 < fl 0.9"
    unfolding fl_two_tenths fl_nine_tenths by simp
  have top: "balance_of ?top ''0xw'' ''USDC'' = 8106479329266892 / 2 ^ 53"
    using lt by (simp only: balance_of_ensure_balance b0 if_True fl_topped_up)
  have lt2: "(8106479329266892 / 2 ^ 53 :: real) < fl 0.9"
    unfolding fl_nine_tenths by simp
  have short: "\<not> (balance_of ?top ''0xw'' ''USDC'' \<ge> fl 0.9)"
    using lt2 by (simp only: top not_le)
  have sub: "subtract_balance ?top ''0xw'' ''USDC'' (fl 0.9) = (False, snd (get_balance ?top ''0xw'' ''USDC''))"
    using short by (simp only: subtract_balance_unfold if_False)
  have fa: "from_asset ?seg = ''USDC''" and ta: "to_asset ?seg \<noteq> from_asset ?seg"
    by (simp_all add: example_segment_def)
  have v: "validated_amounts (cost ?seg) (fl 0.9)
             = Inr (fl 0.9 * (1 / 10) / 100, (fl 0.9 - fl 0.9 * (1 / 10) / 100) * 0.92)"
    unfolding fl_nine_tenths
    by (simp add: validated_amounts_def example_segment_def example_cost_def)
  have ow: "obtain_wallet example_oracle funded_simulator (Some ''0xw'') = (''0xw'', funded_simulator)"
    by (simp add: obtain_wallet_def)
  have st: "status (fst (CryptoExecutor example_oracle funded_simulator ?seg (fl 0.9)
                      (Some ''0xw'') 0)) = SEG_COMPLETED"
    using CryptoExecutor_completed[OF v] by blast
  have "balance_of (snd (CryptoExecutor example_oracle funded_simulator ?seg (fl 0.9)
                      (Some ''0xw'') 0)) ''0xw'' ''USDC''
          = balance_of (snd (subtract_balance ?top ''0xw'' ''USDC'' (fl 0.9))) ''0xw'' ''USDC''"
    using CryptoExecutor_source_balance[OF v ow ta, of 0] by (simp only: fa)
  also have "\<dots> = 8106479329266892 / 2 ^ 53"
    by (simp only: sub snd_conv balance_of_get_balance top)
  finally have fin: "balance_of (snd (CryptoExecutor example_oracle funded_simulator ?seg (fl 0.9)
                      (Some ''0xw'') 0)) ''0xw'' ''USDC'' = 8106479329266892 / 2 ^ 53" .
  have nsub: "\<not> fst (subtract_balance ?top ''0xw'' ''USDC'' (fl 0.9))"
    by (simp only: sub fst_conv simp_thms)
  show ?thesis
    by (intro conjI b0 top fl_nine_tenths nsub st fin)
qed

section \<open>Properties of the execution orchestrator\<close>

subsection \<open>Grouping for parallel mode\<close>

lemma group_loop_concat:
  "concat (group_loop xs gs cur) = concat gs @ cur @ xs"
  by (induction xs gs cur rule: group_loop.induct) auto

lemma group_loop_sizes:
  assumes "\<forall>g\<in>set gs. g \<noteq> [] \<and> length g \<le> 3" and "length cur \<le> 3"
  shows "\<forall>g\<in>set (group_loop xs gs cur). g \<noteq> [] \<and> length g \<le> 3"
  using assms
proof (induction xs gs cur rule: group_loop.induct)
  case (1 gs cur)
  then show ?case by auto
next
  case (2 idx segment rest gs cur)
  show ?case
  proof (cases "segment_type segment \<in> {FX, CRYPTO} \<and> length cur < 3")
    case True
    have "length (cur @ [(idx, segment)]) \<le> 3" using True by simp
    from "2.IH"(1)[OF True "2.prems"(1) this]
    have "\<forall>g\<in>set (group_loop rest gs (cur @ [(idx, segment)])). g \<noteq> [] \<and> length g \<le> 3" .
    moreover have "group_loop ((idx, segment) # rest) gs cur
        = group_loop rest gs (cur @ [(idx, segment)])"
      using True by simp
    ultimately show ?thesis by (simp only:)
  next
    case False
    have a: "\<forall>g\<in>set (if cur \<noteq> [] then gs @ [cur] else gs). g \<noteq> [] \<and> length g \<le> 3"
      using "2.prems" by auto
    have b: "length [(idx, segment)] \<le> 3" by simp
    from "2.IH"(2)[OF False a b]
    have "\<forall>g\<in>set (group_loop rest (if cur \<noteq> [] then gs @ [cur] else gs) [(idx, segment)]).
            g \<noteq> [] \<and> length g \<le> 3" .
    moreover have "group_loop ((idx, segment) # rest) gs cur
        = group_loop rest (if cur \<noteq> [] then gs @ [cur] else gs) [(idx, segment)]"
      using False by auto
    ultimately show ?thesis by (simp only:)
  qed
qed

lemma group_loop_tails:
  assumes "\<forall>g\<in>set gs. \<forall>x\<in>set (tl g). segment_type (snd x) \<in> {FX, CRYPTO}"
      and "\<forall>x\<in>set (tl cur). segment_type (snd x) \<in> {FX, CRYPTO}"
  shows "\<forall>g\<in>set (group_loop xs gs cur). \<forall>x\<in>set (tl g). segment_type (snd x) \<in> {FX, CRYPTO}"
  using assms
proof (induction xs gs cur rule: group_loop.induct)
  case (1 gs cur)
  then show ?case by auto
next
  case (2 idx segment rest gs cur)
  show ?case
  proof (cases "segment_type segment \<in> {FX, CRYPTO} \<and> length cur < 3")
    case True
    have "\<forall>x\<in>set (tl (cur @ [(idx, segment)])). segment_type (snd x) \<in> {FX, CRYPTO}"
      using True "2.prems"(2) by (cases cur) auto
    from "2.IH"(1)[OF True "2.prems"(1) this]
    have "\<forall>g\<in>set (group_loop rest gs (cur @ [(idx, segment)])).
            \<forall>x\<in>set (tl g). segment_type (snd x) \<in> {FX, CRYPTO}" .
    moreover have "group_loop ((idx, segment) # rest) gs cur
        = group_loop rest gs (cur @ [(idx, segment)])"
      using True by simp
    ultimately show ?thesis by (simp only:)
  next
    case False
    have "\<forall>g\<in>set (if cur \<noteq> [] then gs @ [cur] else gs).
            \<forall>x\<in>set (tl g). segment_type (snd x) \<in> {FX, CRYPTO}"
      using "2.prems" by auto
    from "2.IH"(2)[OF False this]
    have "\<forall>g\<in>set (group_loop rest (if cur \<noteq> [] then gs @ [cur] else gs) [(idx, segment)]).
            \<forall>x\<in>set (tl g). segment_type (snd x) \<in> {FX, CRYPTO}"
      by simp
    moreover have "group_loop ((idx, segment) # rest) gs cur
        = group_loop rest (if cur \<noteq> [] then gs @ [cur] else gs) [(idx, segment)]"
      using False by auto
    ultimately show ?thesis by (simp only:)
  qed
qed

lemma group_parallel_segments_partition:
  "concat (group_parallel_segments route_segments) = enumerate 0 route_segments
   \<and> (\<forall>g\<in>set (group_parallel_segments route_segments).
         g \<noteq> [] \<and> length g \<le> 3
         \<and> (\<forall>x\<in>set (tl g). segment_type (snd x) \<in> {FX, CRYPTO}))"
  using group_loop_sizes[of "[]" "[]" "enumerate 0 route_segments"]
    group_loop_tails[of "[]" "[]" "enumerate 0 route_segments"]
  by (simp add: group_parallel_segments_def group_loop_concat)

text \<open>
  Claim C8 at the route bridge, FX. A segment that is neither FX nor CRYPTO opens a new
  run, but the run stays open: the FX segment that follows is appended to it, so the
  bridge shares its run. (What does hold is \<open>group_parallel_segments_partition\<close>: the
  runs partition the route in order, each has between one and three segments, and only the
  first segment of a run can be other than FX or CRYPTO.)
\<close>

theorem bridge_shares_its_run:
  "group_parallel_segments [example_segment BRIDGE 1, example_segment FX 0.92]
     = [[(0, example_segment BRIDGE 1), (1, example_segment FX 0.92)]]"
  by (simp add: group_parallel_segments_def example_segment_def)

subsection \<open>The amount carried between runs in parallel mode\<close>

lemma process_results_amount:
  "current_amount (process_results rs d) = foldl max (current_amount d) (map output_amount rs)"
  by (induction rs arbitrary: d) (auto simp: max_def)

lemma process_results_executions:
  "executions (process_results rs d) = executions d @ rs"
  by (induction rs arbitrary: d) auto

text \<open>
  Claim C9 at a route of one FX segment with input 1000. The comparison that selects the
  maximum starts from the amount the run received, not from the outputs of the run, so the
  amount carried on is the greater of the incoming amount and the outputs
  (\<open>process_results_amount\<close>). Here the only output is 919.08 and the amount carried out of
  the run, which is also the final amount, stays 1000.
\<close>

theorem parallel_amount_keeps_input:
  "map output_amount (segment_executions
      (execute_parallel quiet empty_simulator [example_segment FX 0.92] 1000)) = [919.08]
   \<and> final_amount (execute_parallel quiet empty_simulator [example_segment FX 0.92] 1000) = 1000"
  by (simp add: execute_parallel_def latest_write_def observe_def group_parallel_segments_def
      build_response_def initial_data_def execute_segment_def FXExecutor_def fx_amounts_def
      simulate_fx_conversion_def py_randint_def completed_result_def quiet_def
      example_segment_def example_cost_def example_oracle_def Let_def)

subsection \<open>Rerouting in sequential mode\<close>

text \<open>
  Claim C5 at a route of three segments whose reroute trigger fires at index 1 and yields a
  two-segment alternative. The alternative is stored as the route, but \<open>continue\<close> moves the
  iterator of the original list on to index 2, and the state \<open>REROUTING\<close> that
  \<open>_calculate_reroute\<close> has set makes every later iteration skip: only segment 0 is ever
  executed, and the run is reported completed. When a control operation puts the state
  back to \<open>RUNNING\<close> before index 2, the segment executed there is the original third
  segment (an FX segment), not a segment of the alternative (bank rail).
\<close>

theorem reroute_skips_remaining_segments:
  "map_option (\<lambda>r. (response_status r, map segment_index (segment_executions r),
                     map executed_type (segment_executions r), response_route r))
     (execute_sequential rerouting empty_simulator three_legs 1000 True)
     = Some (EXEC_COMPLETED, [0], [Some FX], detour)
   \<and> map_option (\<lambda>r. (response_status r, map segment_index (segment_executions r),
                     map executed_type (segment_executions r), response_route r))
     (execute_sequential rerouting_reset empty_simulator three_legs 1000 True)
     = Some (EXEC_COMPLETED, [0, 2], [Some FX, Some FX], detour)"
  by (simp add: execute_sequential_def iteration_def reroute_or_run_def run_segment_def
      observe_def build_response_def initial_data_def execute_segment_def FXExecutor_def
      fx_amounts_def simulate_fx_conversion_def py_randint_def completed_result_def
      rerouting_def rerouting_reset_def quiet_def three_legs_def detour_def truthy_def
      example_segment_def example_cost_def example_oracle_def Let_def)


subsection \<open>Cancellation in sequential mode\<close>

lemma result_index [simp]:
  "segment_index (failed_result idx segment amount e) = idx"
  "segment_index (completed_result idx segment amount out fees tx minutes w) = idx"
  "segment_index (skipped_result idx segment amount) = idx"
  by (simp_all add: failed_result_def completed_result_def skipped_result_def)







end
